theory Spec2Isabelle
  imports Main "HOL-Library.Word"
begin

section \<open>The admin facade of the policy proxy (admin-api/main.py)\<close>

subsection \<open>Python values that travel as JSON\<close>

text \<open>
  The values the facade receives, forwards and returns are what Python's JSON decoder
  produces. Python's \<^verbatim>\<open>None\<close> is \<open>JNull\<close> everywhere: a decoded JSON
  \<^verbatim>\<open>null\<close> and a function's \<^verbatim>\<open>return None\<close> are the same object.
  A float is carried as its 64 bits; the facade never computes with one. A dict is an
  association list in insertion order with distinct keys.
\<close>

datatype json =
    JNull
  | JBool bool
  | JInt int
  | JFloat "64 word"
  | JStr string
  | JArr "json list"
  | JObj "(string \<times> json) list"

fun json_get :: "string \<Rightarrow> json \<Rightarrow> json option" where
  "json_get k (JObj kvs) = map_of kvs k"
| "json_get k _ = None"

fun json_keys :: "json \<Rightarrow> string list" where
  "json_keys (JObj kvs) = map fst kvs"
| "json_keys _ = []"

text \<open>The value a body gives for a permission flag, if any: \<^verbatim>\<open>body["permissions"][k]\<close>.\<close>

definition flag_of_body :: "json \<Rightarrow> string \<Rightarrow> json option" where
  "flag_of_body body k =
     (case json_get ''permissions'' body of None \<Rightarrow> None | Some p \<Rightarrow> json_get k p)"

text \<open>
  The validated value of a flag that is a boolean, null or absent in the body: the
  boolean, and \<^verbatim>\<open>None\<close> otherwise.
\<close>

fun flag_value :: "json option \<Rightarrow> bool option" where
  "flag_value (Some (JBool b)) = Some b"
| "flag_value _ = None"

subsection \<open>The request models (lines 11-25)\<close>

record Permissions =
  read :: "bool option"
  create :: "bool option"
  update :: "bool option"
  delete :: "bool option"

record PolicyCreate =
  agentId :: string
  endpointId :: string
  permissions :: Permissions

record PolicyUpdate =
  permissions :: Permissions

subsection \<open>The upstream exchange\<close>

text \<open>
  What the facade reads of an \<^verbatim>\<open>httpx.Response\<close>: \<^verbatim>\<open>status_code\<close>,
  \<^verbatim>\<open>reason_phrase\<close>, \<^verbatim>\<open>content\<close> (bytes), \<^verbatim>\<open>text\<close>
  (here \<open>response_text\<close>) and the outcome of
  \<^verbatim>\<open>json()\<close>, which is either the decoded value or a \<^verbatim>\<open>ValueError\<close> with its
  message (\<open>Inl\<close>).
\<close>

record response =
  status_code :: int
  reason_phrase :: string
  content :: string
  response_text :: string
  json_decoded :: "string + json"

text \<open>One call of \<^verbatim>\<open>client.request(method, url, json=json)\<close>.\<close>

record upstream_call =
  call_method :: string
  call_url :: string
  call_json :: json

datatype transport_error =
    ConnectError string
  | TimeoutException string
  | TransportError string

datatype validation_error =
    Missing "string list"
  | Invalid "string list"

text \<open>
  How a request to the facade can fail: an \<^verbatim>\<open>HTTPException\<close> raised by
  \<^verbatim>\<open>proxy_request\<close>, with its status code and its detail as the constructor
  stored it; a body the framework refuses before the handler runs; an exception of the
  HTTP client that nothing catches; or the \<^verbatim>\<open>ValueError\<close> of
  \<^verbatim>\<open>http.HTTPStatus(status_code)\<close> for a code it does not know, which nothing
  catches either.
\<close>

datatype failure =
    HTTPException int json
  | RequestValidationError "validation_error list"
  | Unhandled transport_error
  | UnhandledValueError int

text \<open>
  The surroundings of the process: its environment variables, the upstream service as
  seen through the HTTP client (a response, or a transport failure), the conversion
  the validation library applies to a flag value that is neither a boolean nor null,
  and the phrases of \<^verbatim>\<open>http.HTTPStatus\<close> (\<open>None\<close> for a code it does not
  list).
\<close>

record env =
  environ :: "string \<Rightarrow> string option"
  client_request :: "upstream_call \<Rightarrow> transport_error + response"
  lax_bool :: "json \<Rightarrow> bool option"
  status_phrase :: "int \<Rightarrow> string option"

definition PROXY_URL :: "env \<Rightarrow> string" where
  "PROXY_URL e =
     (case environ e ''ARMORIQ_PROXY_URL'' of
        None \<Rightarrow> ''http://localhost:5001''
      | Some u \<Rightarrow> u)"

text \<open>The result of an operation: the upstream calls it made, in order, and its outcome.\<close>

type_synonym outcome = "upstream_call list \<times> (failure + json)"

subsection \<open>Raising an HTTPException\<close>

text \<open>
  \<^verbatim>\<open>HTTPException(status_code=..., detail=...)\<close> keeps the detail it is given,
  except that a detail of \<^verbatim>\<open>None\<close> is replaced by
  \<^verbatim>\<open>http.HTTPStatus(status_code).phrase\<close>; that lookup raises
  \<^verbatim>\<open>ValueError\<close> for a code outside the table.
\<close>

definition raise_HTTPException :: "env \<Rightarrow> int \<Rightarrow> json \<Rightarrow> failure" where
  "raise_HTTPException e status detail =
     (if detail = JNull then
        (case status_phrase e status of
           None \<Rightarrow> UnhandledValueError status
         | Some phrase \<Rightarrow> HTTPException status (JStr phrase))
      else HTTPException status detail)"

subsection \<open>proxy_request (lines 35-56)\<close>

definition proxy_request :: "env \<Rightarrow> string \<Rightarrow> string \<Rightarrow> json \<Rightarrow> int list \<Rightarrow> outcome" where
  "proxy_request e method path json expected =
     (let url = PROXY_URL e @ path;
          call = \<lparr>call_method = method, call_url = url, call_json = json\<rparr>
      in case client_request e call of
           Inl fault \<Rightarrow> ([call], Inl (Unhandled fault))
         | Inr response \<Rightarrow>
             ([call],
              if status_code response \<notin> set expected then
                (let detail =
                   (case json_decoded response of
                      Inr v \<Rightarrow> v
                    | Inl msg \<Rightarrow>
                        JObj [(''error'',
                               JStr (if response_text response \<noteq> [] then response_text response
                                     else reason_phrase response))])
                 in Inl (raise_HTTPException e (status_code response) detail))
              else if status_code response = 204 then Inr JNull
              else if content response = [] then Inr JNull
              else
                (case json_decoded response of
                   Inr v \<Rightarrow> Inr v
                 | Inl msg \<Rightarrow>
                     Inl (raise_HTTPException e 500
                            (JObj [(''error'', JStr ''Invalid JSON from proxy''),
                                   (''details'', JStr msg)])))))"

subsection \<open>Serialising a request model: model_dump(mode="json")\<close>

text \<open>
  \<^verbatim>\<open>model_dump\<close> writes every declared field, in declaration order, a nested model
  as a nested dict. No field is excluded, so a flag that is \<^verbatim>\<open>None\<close> is written as
  \<^verbatim>\<open>None\<close>.
\<close>

definition dump_flag :: "bool option \<Rightarrow> json" where
  "dump_flag f = (case f of None \<Rightarrow> JNull | Some b \<Rightarrow> JBool b)"

definition Permissions_model_dump :: "Permissions \<Rightarrow> json" where
  "Permissions_model_dump p =
     JObj [(''read'', dump_flag (read p)),
           (''create'', dump_flag (create p)),
           (''update'', dump_flag (update p)),
           (''delete'', dump_flag (delete p))]"

definition PolicyCreate_model_dump :: "PolicyCreate \<Rightarrow> json" where
  "PolicyCreate_model_dump payload =
     JObj [(''agentId'', JStr (agentId payload)),
           (''endpointId'', JStr (endpointId payload)),
           (''permissions'', Permissions_model_dump (PolicyCreate.permissions payload))]"

definition PolicyUpdate_model_dump :: "PolicyUpdate \<Rightarrow> json" where
  "PolicyUpdate_model_dump payload =
     JObj [(''permissions'', Permissions_model_dump (PolicyUpdate.permissions payload))]"

subsection \<open>Validating a request body against a request model\<close>

text \<open>
  What the declarations of lines 11-25 ask of a decoded JSON body. A field declared with
  \<^verbatim>\<open>Field(...)\<close> is required; \<^verbatim>\<open>str\<close> carries no constraint, so every JSON
  string is accepted; an \<^verbatim>\<open>Optional[bool]\<close> with default \<^verbatim>\<open>None\<close> may be
  absent or null; \<^verbatim>\<open>permissions\<close> defaults to \<^verbatim>\<open>Permissions()\<close>. No model
  sets a configuration, so keys that are not declared are ignored. The errors of all
  fields are collected.
\<close>

fun errors_of :: "validation_error list + 'a \<Rightarrow> validation_error list" where
  "errors_of (Inl errs) = errs"
| "errors_of (Inr _) = []"

definition validate_str :: "string list \<Rightarrow> json option \<Rightarrow> validation_error list + string" where
  "validate_str loc v =
     (case v of
        None \<Rightarrow> Inl [Missing loc]
      | Some (JStr s) \<Rightarrow> Inr s
      | Some _ \<Rightarrow> Inl [Invalid loc])"

definition validate_flag ::
  "(json \<Rightarrow> bool option) \<Rightarrow> string list \<Rightarrow> json option \<Rightarrow> validation_error list + bool option" where
  "validate_flag lax loc v =
     (case v of
        None \<Rightarrow> Inr None
      | Some JNull \<Rightarrow> Inr None
      | Some (JBool b) \<Rightarrow> Inr (Some b)
      | Some x \<Rightarrow> (case lax x of Some b \<Rightarrow> Inr (Some b) | None \<Rightarrow> Inl [Invalid loc]))"

definition validate_Permissions ::
  "(json \<Rightarrow> bool option) \<Rightarrow> string list \<Rightarrow> json option \<Rightarrow> validation_error list + Permissions" where
  "validate_Permissions lax loc v =
     (case v of
        None \<Rightarrow> Inr \<lparr>read = None, create = None, update = None, delete = None\<rparr>
      | Some (JObj kvs) \<Rightarrow>
          (let r = validate_flag lax (loc @ [''read'']) (map_of kvs ''read'');
               c = validate_flag lax (loc @ [''create'']) (map_of kvs ''create'');
               u = validate_flag lax (loc @ [''update'']) (map_of kvs ''update'');
               d = validate_flag lax (loc @ [''delete'']) (map_of kvs ''delete'')
           in case (r, c, u, d) of
                (Inr r', Inr c', Inr u', Inr d') \<Rightarrow>
                  Inr \<lparr>read = r', create = c', update = u', delete = d'\<rparr>
              | _ \<Rightarrow> Inl (errors_of r @ errors_of c @ errors_of u @ errors_of d))
      | Some _ \<Rightarrow> Inl [Invalid loc])"

definition validate_PolicyCreate ::
  "(json \<Rightarrow> bool option) \<Rightarrow> json \<Rightarrow> validation_error list + PolicyCreate" where
  "validate_PolicyCreate lax body =
     (case body of
        JObj kvs \<Rightarrow>
          (let a = validate_str [''body'', ''agentId''] (map_of kvs ''agentId'');
               n = validate_str [''body'', ''endpointId''] (map_of kvs ''endpointId'');
               p = validate_Permissions lax [''body'', ''permissions''] (map_of kvs ''permissions'')
           in case (a, n, p) of
                (Inr a', Inr n', Inr p') \<Rightarrow>
                  Inr \<lparr>agentId = a', endpointId = n', permissions = p'\<rparr>
              | _ \<Rightarrow> Inl (errors_of a @ errors_of n @ errors_of p))
      | _ \<Rightarrow> Inl [Invalid [''body'']])"

definition validate_PolicyUpdate ::
  "(json \<Rightarrow> bool option) \<Rightarrow> json \<Rightarrow> validation_error list + PolicyUpdate" where
  "validate_PolicyUpdate lax body =
     (case body of
        JObj kvs \<Rightarrow>
          (case validate_Permissions lax [''body'', ''permissions''] (map_of kvs ''permissions'') of
             Inr p' \<Rightarrow> Inr \<lparr>permissions = p'\<rparr>
           | Inl errs \<Rightarrow> Inl errs)
      | _ \<Rightarrow> Inl [Invalid [''body'']])"

subsection \<open>The handlers (lines 59-106)\<close>

definition get_status :: "env \<Rightarrow> outcome" where
  "get_status e = proxy_request e ''GET'' ''/health'' JNull [200]"

definition get_logs :: "env \<Rightarrow> outcome" where
  "get_logs e = proxy_request e ''GET'' ''/api/audit-logs'' JNull [200]"

definition get_endpoints :: "env \<Rightarrow> outcome" where
  "get_endpoints e = proxy_request e ''GET'' ''/api/endpoints'' JNull [200]"

definition list_policies :: "env \<Rightarrow> outcome" where
  "list_policies e = proxy_request e ''GET'' ''/api/policies'' JNull [200]"

definition get_policy :: "env \<Rightarrow> string \<Rightarrow> outcome" where
  "get_policy e agent_id = proxy_request e ''GET'' (''/api/policies/'' @ agent_id) JNull [200]"

definition create_policy :: "env \<Rightarrow> PolicyCreate \<Rightarrow> outcome" where
  "create_policy e payload =
     proxy_request e ''POST'' ''/api/policies'' (PolicyCreate_model_dump payload) [201]"

definition update_policy :: "env \<Rightarrow> string \<Rightarrow> PolicyUpdate \<Rightarrow> outcome" where
  "update_policy e agent_id payload =
     proxy_request e ''PUT'' (''/api/policies/'' @ agent_id) (PolicyUpdate_model_dump payload) [200]"

text \<open>\<^verbatim>\<open>delete_policy\<close> awaits the call and returns nothing, whatever the call returned.\<close>

definition delete_policy :: "env \<Rightarrow> string \<Rightarrow> outcome" where
  "delete_policy e agent_id =
     (case proxy_request e ''DELETE'' (''/api/policies/'' @ agent_id) JNull [204] of
        (calls, Inl err) \<Rightarrow> (calls, Inl err)
      | (calls, Inr _) \<Rightarrow> (calls, Inr JNull))"

subsection \<open>The routes (the decorators of lines 59-103)\<close>

text \<open>
  A route matches a request by its method and its path. The path of a route is
  compiled to a regular expression that ends in \<^verbatim>\<open>$\<close>, which also matches before
  a final newline, so a fixed path matches itself and itself followed by one newline.
  The path parameter \<^verbatim>\<open>{agent_id}\<close> stands for one non-empty segment without a
  slash. Routes are tried in the order of their registration. \<open>match_route\<close> is
  \<open>None\<close> when no handler of the file runs.
\<close>

datatype endpoint =
    Get_status
  | Get_logs
  | Get_endpoints
  | List_policies
  | Get_policy string
  | Create_policy
  | Update_policy string
  | Delete_policy string

fun strip_prefix :: "string \<Rightarrow> string \<Rightarrow> string option" where
  "strip_prefix [] s = Some s"
| "strip_prefix (p # ps) [] = None"
| "strip_prefix (p # ps) (c # cs) = (if p = c then strip_prefix ps cs else None)"

definition path_param :: "string \<Rightarrow> string \<Rightarrow> string option" where
  "path_param prefix path =
     (case strip_prefix prefix path of
        None \<Rightarrow> None
      | Some rest \<Rightarrow> if rest \<noteq> [] \<and> CHR ''/'' \<notin> set rest then Some rest else None)"

definition path_is :: "string \<Rightarrow> string \<Rightarrow> bool" where
  "path_is fixed path = (path = fixed \<or> path = fixed @ [CHR 0x0A])"

definition match_route :: "string \<Rightarrow> string \<Rightarrow> endpoint option" where
  "match_route method path =
     (if method = ''GET'' \<and> path_is ''/status'' path then Some Get_status
      else if method = ''GET'' \<and> path_is ''/logs'' path then Some Get_logs
      else if method = ''GET'' \<and> path_is ''/endpoints'' path then Some Get_endpoints
      else if method = ''GET'' \<and> path_is ''/policies'' path then Some List_policies
      else if method = ''GET'' then map_option Get_policy (path_param ''/policies/'' path)
      else if method = ''POST'' \<and> path_is ''/policies'' path then Some Create_policy
      else if method = ''PUT'' then map_option Update_policy (path_param ''/policies/'' path)
      else if method = ''DELETE'' then map_option Delete_policy (path_param ''/policies/'' path)
      else None)"

text \<open>
  Serving a matched request: a handler with a \<^verbatim>\<open>payload\<close> parameter runs only on a
  body that validates against the parameter's model; otherwise the request is refused
  and no upstream call is made.
\<close>

fun serve :: "env \<Rightarrow> json \<Rightarrow> endpoint \<Rightarrow> outcome" where
  "serve e body Get_status = get_status e"
| "serve e body Get_logs = get_logs e"
| "serve e body Get_endpoints = get_endpoints e"
| "serve e body List_policies = list_policies e"
| "serve e body (Get_policy agent_id) = get_policy e agent_id"
| "serve e body Create_policy =
     (case validate_PolicyCreate (lax_bool e) body of
        Inl errs \<Rightarrow> ([], Inl (RequestValidationError errs))
      | Inr payload \<Rightarrow> create_policy e payload)"
| "serve e body (Update_policy agent_id) =
     (case validate_PolicyUpdate (lax_bool e) body of
        Inl errs \<Rightarrow> ([], Inl (RequestValidationError errs))
      | Inr payload \<Rightarrow> update_policy e agent_id payload)"
| "serve e body (Delete_policy agent_id) = delete_policy e agent_id"

definition app :: "env \<Rightarrow> string \<Rightarrow> string \<Rightarrow> json \<Rightarrow> outcome option" where
  "app e method path body = map_option (serve e body) (match_route method path)"

subsection \<open>Example exchanges\<close>

text \<open>
  Concrete surroundings and upstream responses, used to run the operations. The flag
  conversion is the validation library's: the integers 0 and 1, the floats 0.0 and 1.0,
  and the strings 0, off, f, false, n, no and 1, on, t, true, y, yes in any letter case.
  The status phrases are those of \<^verbatim>\<open>http.HTTPStatus\<close>.
\<close>

definition ascii_lower :: "char \<Rightarrow> char" where
  "ascii_lower c =
     (case map_of (zip ''ABCDEFGHIJKLMNOPQRSTUVWXYZ'' ''abcdefghijklmnopqrstuvwxyz'') c of
        None \<Rightarrow> c
      | Some l \<Rightarrow> l)"

definition pydantic_lax_bool :: "json \<Rightarrow> bool option" where
  "pydantic_lax_bool v =
     (case v of
        JInt n \<Rightarrow> (if n = 0 then Some False else if n = 1 then Some True else None)
      | JFloat w \<Rightarrow>
          (if w = 0 \<or> w = 0x8000000000000000 then Some False
           else if w = 0x3FF0000000000000 then Some True
           else None)
      | JStr s \<Rightarrow>
          (let l = map ascii_lower s
           in if l \<in> set [''0'', ''off'', ''f'', ''false'', ''n'', ''no''] then Some False
              else if l \<in> set [''1'', ''on'', ''t'', ''true'', ''y'', ''yes''] then Some True
              else None)
      | _ \<Rightarrow> None)"

definition http_status_phrase :: "int \<Rightarrow> string option" where
  "http_status_phrase =
     map_of
       [(100, ''Continue''), (101, ''Switching Protocols''), (102, ''Processing''),
        (103, ''Early Hints''), (200, ''OK''), (201, ''Created''), (202, ''Accepted''),
        (203, ''Non-Authoritative Information''), (204, ''No Content''),
        (205, ''Reset Content''), (206, ''Partial Content''), (207, ''Multi-Status''),
        (208, ''Already Reported''), (226, ''IM Used''), (300, ''Multiple Choices''),
        (301, ''Moved Permanently''), (302, ''Found''), (303, ''See Other''),
        (304, ''Not Modified''), (305, ''Use Proxy''), (307, ''Temporary Redirect''),
        (308, ''Permanent Redirect''), (400, ''Bad Request''), (401, ''Unauthorized''),
        (402, ''Payment Required''), (403, ''Forbidden''), (404, ''Not Found''),
        (405, ''Method Not Allowed''), (406, ''Not Acceptable''),
        (407, ''Proxy Authentication Required''), (408, ''Request Timeout''),
        (409, ''Conflict''), (410, ''Gone''), (411, ''Length Required''),
        (412, ''Precondition Failed''), (413, ''Request Entity Too Large''),
        (414, ''Request-URI Too Long''), (415, ''Unsupported Media Type''),
        (416, ''Requested Range Not Satisfiable''), (417, ''Expectation Failed''),
        (418, ''I'' @ [CHR 0x27] @ ''m a Teapot''), (421, ''Misdirected Request''),
        (422, ''Unprocessable Entity''), (423, ''Locked''), (424, ''Failed Dependency''),
        (425, ''Too Early''), (426, ''Upgrade Required''), (428, ''Precondition Required''),
        (429, ''Too Many Requests''), (431, ''Request Header Fields Too Large''),
        (451, ''Unavailable For Legal Reasons''), (500, ''Internal Server Error''),
        (501, ''Not Implemented''), (502, ''Bad Gateway''), (503, ''Service Unavailable''),
        (504, ''Gateway Timeout''), (505, ''HTTP Version Not Supported''),
        (506, ''Variant Also Negotiates''), (507, ''Insufficient Storage''),
        (508, ''Loop Detected''), (510, ''Not Extended''),
        (511, ''Network Authentication Required'')]"

definition json_value_error :: string where
  "json_value_error = ''Expecting value: line 1 column 1 (char 0)''"

definition upstream_answers :: "response \<Rightarrow> env" where
  "upstream_answers r =
     \<lparr>environ = (\<lambda>k. None), client_request = (\<lambda>c. Inr r),
      lax_bool = pydantic_lax_bool, status_phrase = http_status_phrase\<rparr>"

definition upstream_down :: "transport_error \<Rightarrow> env" where
  "upstream_down fault =
     \<lparr>environ = (\<lambda>k. None), client_request = (\<lambda>c. Inl fault),
      lax_bool = pydantic_lax_bool, status_phrase = http_status_phrase\<rparr>"


definition resp_200_json :: response where
  "resp_200_json =
     \<lparr>status_code = 200, reason_phrase = ''OK'', content = ''[1, 2]'',
      response_text = ''[1, 2]'', json_decoded = Inr (JArr [JInt 1, JInt 2])\<rparr>"


definition resp_201_json :: response where
  "resp_201_json =
     \<lparr>status_code = 201, reason_phrase = ''Created'', content = ''[1, 2]'',
      response_text = ''[1, 2]'', json_decoded = Inr (JArr [JInt 1, JInt 2])\<rparr>"

definition resp_204_empty :: response where
  "resp_204_empty =
     \<lparr>status_code = 204, reason_phrase = ''No Content'', content = [],
      response_text = [], json_decoded = Inl json_value_error\<rparr>"


text \<open>Request bodies, and the model the first one validates to.\<close>

definition body_a1 :: json where
  "body_a1 =
     JObj [(''agentId'', JStr ''a1''), (''endpointId'', JStr ''e1''),
           (''permissions'', JObj [(''read'', JBool True)])]"

definition payload_a1 :: PolicyCreate where
  "payload_a1 =
     \<lparr>agentId = ''a1'', endpointId = ''e1'',
      permissions = \<lparr>read = Some True, create = None, update = None, delete = None\<rparr>\<rparr>"

definition body_empty_agent :: json where
  "body_empty_agent = JObj [(''agentId'', JStr []), (''endpointId'', JStr ''e1'')]"

definition body_no_agent :: json where
  "body_no_agent = JObj [(''endpointId'', JStr ''e1'')]"

definition body_extra :: "(string \<times> json) list" where
  "body_extra =
     [(''agentId'', JStr ''a1''), (''note'', JStr ''x''), (''endpointId'', JStr ''e1'')]"

definition body_update :: json where
  "body_update = JObj [(''permissions'', JObj [(''read'', JBool True)])]"

definition body_update_extra :: "(string \<times> json) list" where
  "body_update_extra =
     [(''note'', JStr ''x''), (''permissions'', JObj [(''read'', JBool True)])]"

definition body_lax :: json where
  "body_lax =
     JObj [(''agentId'', JStr ''a1''), (''endpointId'', JStr ''e1''),
           (''permissions'', JObj [(''read'', JInt 1)])]"

section \<open>Properties of proxy_request\<close>

lemma proxy_request_calls:
  "fst (proxy_request e method path json expected) =
     [\<lparr>call_method = method, call_url = PROXY_URL e @ path, call_json = json\<rparr>]"
  by (simp add: proxy_request_def Let_def split: sum.splits)





text \<open>
  C2. When the upstream status code is one of the expected ones and is not 204, the
  body is not empty and decodes as JSON, \<open>proxy_request\<close> returns exactly the decoded
  value.
\<close>

theorem proxy_request_returns_decoded:
  assumes "client_request e
             \<lparr>call_method = method, call_url = PROXY_URL e @ path, call_json = json\<rparr> = Inr r"
      and "status_code r \<in> set expected"
      and "status_code r \<noteq> 204"
      and "content r \<noteq> []"
      and "json_decoded r = Inr v"
  shows "snd (proxy_request e method path json expected) = Inr v"
  using assms by (simp add: proxy_request_def Let_def)

theorem proxy_request_returns_decoded_witness:
  "client_request (upstream_answers resp_200_json)
     \<lparr>call_method = ''GET'',
      call_url = PROXY_URL (upstream_answers resp_200_json) @ ''/api/policies'',
      call_json = JNull\<rparr> = Inr resp_200_json
   \<and> status_code resp_200_json \<in> set [200]
   \<and> status_code resp_200_json \<noteq> 204
   \<and> content resp_200_json \<noteq> []
   \<and> json_decoded resp_200_json = Inr (JArr [JInt 1, JInt 2])
   \<and> snd (proxy_request (upstream_answers resp_200_json) ''GET'' ''/api/policies'' JNull [200])
       = Inr (JArr [JInt 1, JInt 2])"
  using proxy_request_returns_decoded
          [of "upstream_answers resp_200_json" "''GET''" "''/api/policies''" JNull
              resp_200_json "[200]" "JArr [JInt 1, JInt 2]"]
  by (simp add: upstream_answers_def resp_200_json_def)



text \<open>
  C4. When the upstream status code is one of the expected ones and either it is 204 or
  the body is empty, \<open>proxy_request\<close> returns \<^verbatim>\<open>None\<close>. The result does not depend on
  what decoding the body would give (\<open>j\<close> is arbitrary), and it is never a failure.
\<close>

theorem proxy_request_no_content:
  assumes "client_request e
             \<lparr>call_method = method, call_url = PROXY_URL e @ path, call_json = json\<rparr>
           = Inr (r\<lparr>json_decoded := j\<rparr>)"
      and "status_code r \<in> set expected"
      and "status_code r = 204 \<or> content r = []"
  shows "snd (proxy_request e method path json expected) = Inr JNull"
  using assms by (auto simp add: proxy_request_def Let_def)

theorem proxy_request_no_content_witness:
  "client_request (upstream_answers resp_204_empty)
     \<lparr>call_method = ''DELETE'',
      call_url = PROXY_URL (upstream_answers resp_204_empty) @ ''/api/policies/a1'',
      call_json = JNull\<rparr>
     = Inr (resp_204_empty\<lparr>json_decoded := Inl json_value_error\<rparr>)
   \<and> status_code resp_204_empty \<in> set [204]
   \<and> (status_code resp_204_empty = 204 \<or> content resp_204_empty = [])
   \<and> snd (proxy_request (upstream_answers resp_204_empty) ''DELETE'' ''/api/policies/a1''
            JNull [204])
       = Inr JNull"
  using proxy_request_no_content
          [of "upstream_answers resp_204_empty" "''DELETE''" "''/api/policies/a1''" JNull
              "Inl json_value_error" resp_204_empty "[204]"]
  by (simp add: upstream_answers_def resp_204_empty_def)

section \<open>The routing table\<close>

lemma strip_prefix_append: "strip_prefix p (p @ s) = Some s"
  by (induction p) simp_all

lemma path_param_policies:
  "a \<noteq> [] \<Longrightarrow> CHR ''/'' \<notin> set a \<Longrightarrow> path_param ''/policies/'' (''/policies/'' @ a) = Some a"
  unfolding path_param_def by (simp only: strip_prefix_append) simp

lemma route_get_policy:
  "a \<noteq> [] \<Longrightarrow> CHR ''/'' \<notin> set a \<Longrightarrow> match_route ''GET'' (''/policies/'' @ a) = Some (Get_policy a)"
  using path_param_policies[of a] by (simp add: match_route_def path_is_def)

lemma route_put_policy:
  "a \<noteq> [] \<Longrightarrow> CHR ''/'' \<notin> set a \<Longrightarrow> match_route ''PUT'' (''/policies/'' @ a) = Some (Update_policy a)"
  using path_param_policies[of a] by (simp add: match_route_def path_is_def)

lemma route_delete_policy:
  "a \<noteq> [] \<Longrightarrow> CHR ''/'' \<notin> set a \<Longrightarrow> match_route ''DELETE'' (''/policies/'' @ a) = Some (Delete_policy a)"
  using path_param_policies[of a] by (simp add: match_route_def path_is_def)

lemma app_get_status:
  "app e ''GET'' ''/status'' b = Some (proxy_request e ''GET'' ''/health'' JNull [200])"
  by (simp add: app_def match_route_def path_is_def get_status_def)

lemma app_get_logs:
  "app e ''GET'' ''/logs'' b = Some (proxy_request e ''GET'' ''/api/audit-logs'' JNull [200])"
  by (simp add: app_def match_route_def path_is_def get_logs_def)

lemma app_get_endpoints:
  "app e ''GET'' ''/endpoints'' b = Some (proxy_request e ''GET'' ''/api/endpoints'' JNull [200])"
  by (simp add: app_def match_route_def path_is_def get_endpoints_def)

lemma app_list_policies:
  "app e ''GET'' ''/policies'' b = Some (proxy_request e ''GET'' ''/api/policies'' JNull [200])"
  by (simp add: app_def match_route_def path_is_def list_policies_def)

lemma app_get_policy:
  "a \<noteq> [] \<Longrightarrow> CHR ''/'' \<notin> set a \<Longrightarrow>
   app e ''GET'' (''/policies/'' @ a) b
     = Some (proxy_request e ''GET'' (''/api/policies/'' @ a) JNull [200])"
  using route_get_policy[of a] by (simp add: app_def get_policy_def)

lemma app_create_policy:
  "app e ''POST'' ''/policies'' b
     = Some (case validate_PolicyCreate (lax_bool e) b of
               Inl errs \<Rightarrow> ([], Inl (RequestValidationError errs))
             | Inr payload \<Rightarrow>
                 proxy_request e ''POST'' ''/api/policies'' (PolicyCreate_model_dump payload) [201])"
  by (simp add: app_def match_route_def path_is_def create_policy_def split: sum.splits)

lemma app_update_policy:
  "a \<noteq> [] \<Longrightarrow> CHR ''/'' \<notin> set a \<Longrightarrow>
   app e ''PUT'' (''/policies/'' @ a) b
     = Some (case validate_PolicyUpdate (lax_bool e) b of
               Inl errs \<Rightarrow> ([], Inl (RequestValidationError errs))
             | Inr payload \<Rightarrow>
                 proxy_request e ''PUT'' (''/api/policies/'' @ a) (PolicyUpdate_model_dump payload) [200])"
  using route_put_policy[of a] by (simp add: app_def update_policy_def split: sum.splits)

lemma app_delete_policy:
  "a \<noteq> [] \<Longrightarrow> CHR ''/'' \<notin> set a \<Longrightarrow>
   app e ''DELETE'' (''/policies/'' @ a) b
     = Some (case proxy_request e ''DELETE'' (''/api/policies/'' @ a) JNull [204] of
               (calls, Inl err) \<Rightarrow> (calls, Inl err)
             | (calls, Inr v) \<Rightarrow> (calls, Inr JNull))"
  using route_delete_policy[of a] by (simp add: app_def delete_policy_def)


text \<open>
  C5. Each of the eight routes calls \<open>proxy_request\<close> with the fixed method, upstream
  path and expected status code of its handler: GET /status calls GET /health expecting
  200, GET /logs calls GET /api/audit-logs expecting 200, GET /endpoints calls
  GET /api/endpoints expecting 200, GET /policies calls GET /api/policies expecting 200,
  GET /policies/a calls GET /api/policies/a expecting 200, POST /policies calls
  POST /api/policies expecting 201 with the serialised payload, PUT /policies/a calls
  PUT /api/policies/a expecting 200 with the serialised payload, and DELETE /policies/a
  calls DELETE /api/policies/a expecting 204 and returns nothing. Here \<open>a\<close> is a path
  segment: not empty and without a slash.
\<close>

theorem routing_table:
  assumes "a \<noteq> []" and "CHR ''/'' \<notin> set a"
  shows "app e ''GET'' ''/status'' b = Some (proxy_request e ''GET'' ''/health'' JNull [200])
       \<and> app e ''GET'' ''/logs'' b = Some (proxy_request e ''GET'' ''/api/audit-logs'' JNull [200])
       \<and> app e ''GET'' ''/endpoints'' b = Some (proxy_request e ''GET'' ''/api/endpoints'' JNull [200])
       \<and> app e ''GET'' ''/policies'' b = Some (proxy_request e ''GET'' ''/api/policies'' JNull [200])
       \<and> app e ''GET'' (''/policies/'' @ a) b
            = Some (proxy_request e ''GET'' (''/api/policies/'' @ a) JNull [200])
       \<and> app e ''POST'' ''/policies'' b
            = Some (case validate_PolicyCreate (lax_bool e) b of
                      Inl errs \<Rightarrow> ([], Inl (RequestValidationError errs))
                    | Inr payload \<Rightarrow>
                        proxy_request e ''POST'' ''/api/policies''
                          (PolicyCreate_model_dump payload) [201])
       \<and> app e ''PUT'' (''/policies/'' @ a) b
            = Some (case validate_PolicyUpdate (lax_bool e) b of
                      Inl errs \<Rightarrow> ([], Inl (RequestValidationError errs))
                    | Inr payload \<Rightarrow>
                        proxy_request e ''PUT'' (''/api/policies/'' @ a)
                          (PolicyUpdate_model_dump payload) [200])
       \<and> app e ''DELETE'' (''/policies/'' @ a) b
            = Some (case proxy_request e ''DELETE'' (''/api/policies/'' @ a) JNull [204] of
                      (calls, Inl err) \<Rightarrow> (calls, Inl err)
                    | (calls, Inr v) \<Rightarrow> (calls, Inr JNull))"
  using assms
  by (intro conjI app_get_status app_get_logs app_get_endpoints app_list_policies
        app_get_policy app_create_policy app_update_policy app_delete_policy)

theorem routing_table_witness:
  "''a1'' \<noteq> [] \<and> CHR ''/'' \<notin> set ''a1''
   \<and> app (upstream_answers resp_204_empty) ''DELETE'' (''/policies/'' @ ''a1'') JNull
       = Some ([\<lparr>call_method = ''DELETE'',
                 call_url = ''http://localhost:5001/api/policies/a1'',
                 call_json = JNull\<rparr>],
               Inr JNull)
   \<and> app (upstream_answers resp_200_json) ''GET'' ''/status'' JNull
       = Some ([\<lparr>call_method = ''GET'', call_url = ''http://localhost:5001/health'',
                 call_json = JNull\<rparr>],
               Inr (JArr [JInt 1, JInt 2]))"
  using routing_table [where a = "''a1''" and e = "upstream_answers resp_204_empty" and b = JNull]
        routing_table [where a = "''a1''" and e = "upstream_answers resp_200_json" and b = JNull]
  by (simp add: proxy_request_def PROXY_URL_def upstream_answers_def resp_204_empty_def
        resp_200_json_def)

section \<open>Transport failures\<close>

lemma proxy_request_fault:
  assumes "proxy_request e m p j ex = (calls, out)" "c \<in> set calls" "client_request e c = Inl fault"
  shows "calls = [c] \<and> out = Inl (Unhandled fault)"
  using assms by (auto simp: proxy_request_def Let_def split: sum.splits)

lemma delete_policy_fault:
  assumes "delete_policy e a = (calls, out)" "c \<in> set calls" "client_request e c = Inl fault"
  shows "calls = [c] \<and> out = Inl (Unhandled fault)"
proof -
  obtain calls' out' where pr: "proxy_request e ''DELETE'' (''/api/policies/'' @ a) JNull [204] = (calls', out')"
    by (cases "proxy_request e ''DELETE'' (''/api/policies/'' @ a) JNull [204]")
  with assms(1) have "calls' = calls"
    by (auto simp: delete_policy_def split: sum.splits)
  with proxy_request_fault[OF pr] assms(2,3) have "calls' = [c] \<and> out' = Inl (Unhandled fault)"
    by simp
  with assms(1) pr show ?thesis
    by (auto simp: delete_policy_def)
qed

lemma serve_fault:
  assumes "serve e body ep = (calls, out)" "c \<in> set calls" "client_request e c = Inl fault"
  shows "calls = [c] \<and> out = Inl (Unhandled fault)"
proof (cases ep)
  case Create_policy
  with assms show ?thesis
    by (auto simp: create_policy_def split: sum.splits dest: proxy_request_fault)
next
  case (Update_policy a)
  with assms show ?thesis
    by (auto simp: update_policy_def split: sum.splits dest: proxy_request_fault)
next
  case (Delete_policy a)
  with assms delete_policy_fault show ?thesis by simp
qed (use assms in \<open>auto simp: get_status_def get_logs_def get_endpoints_def list_policies_def
       get_policy_def dest: proxy_request_fault\<close>)


text \<open>
  C8. A failure of the outbound call itself is not caught: \<open>proxy_request\<close> made one
  call and ends with the client's exception, not with an \<open>HTTPException\<close>; and for every
  route, when the call a request made failed in transport, that call is the only one and
  the request ends with the same exception.
\<close>

theorem transport_failure_propagates:
  "(client_request e \<lparr>call_method = m, call_url = PROXY_URL e @ p, call_json = j\<rparr> = Inl fault
      \<longrightarrow> proxy_request e m p j ex
            = ([\<lparr>call_method = m, call_url = PROXY_URL e @ p, call_json = j\<rparr>],
               Inl (Unhandled fault)))
   \<and> (app e method path body = Some (calls, out) \<longrightarrow> c \<in> set calls
        \<longrightarrow> client_request e c = Inl fault
        \<longrightarrow> calls = [c] \<and> out = Inl (Unhandled fault))"
proof (intro conjI impI)
  assume "client_request e \<lparr>call_method = m, call_url = PROXY_URL e @ p, call_json = j\<rparr> = Inl fault"
  then show "proxy_request e m p j ex
            = ([\<lparr>call_method = m, call_url = PROXY_URL e @ p, call_json = j\<rparr>],
               Inl (Unhandled fault))"
    by (simp add: proxy_request_def Let_def)
next
  assume a: "app e method path body = Some (calls, out)" "c \<in> set calls"
    "client_request e c = Inl fault"
  from a(1) obtain ep where "serve e body ep = (calls, out)"
    by (auto simp: app_def)
  from serve_fault[OF this a(2,3)] show "calls = [c]" and "out = Inl (Unhandled fault)"
    by simp_all
qed

theorem transport_failure_propagates_witness:
  "client_request (upstream_down (TimeoutException ''timed out''))
     \<lparr>call_method = ''GET'',
      call_url = PROXY_URL (upstream_down (TimeoutException ''timed out'')) @ ''/health'',
      call_json = JNull\<rparr> = Inl (TimeoutException ''timed out'')
   \<and> proxy_request (upstream_down (TimeoutException ''timed out'')) ''GET'' ''/health'' JNull [200]
       = ([\<lparr>call_method = ''GET'', call_url = ''http://localhost:5001/health'',
            call_json = JNull\<rparr>],
          Inl (Unhandled (TimeoutException ''timed out'')))
   \<and> app (upstream_down (TimeoutException ''timed out'')) ''GET'' ''/status'' JNull
       = Some ([\<lparr>call_method = ''GET'', call_url = ''http://localhost:5001/health'',
                 call_json = JNull\<rparr>],
               Inl (Unhandled (TimeoutException ''timed out'')))"
  using transport_failure_propagates
          [of "upstream_down (TimeoutException ''timed out'')" "''GET''" "''/health''" JNull
              "TimeoutException ''timed out''" "[200]" "''GET''" "''/status''" JNull
              "[\<lparr>call_method = ''GET'', call_url = ''http://localhost:5001/health'',
                 call_json = JNull\<rparr>]"
              "Inl (Unhandled (TimeoutException ''timed out''))"
              "\<lparr>call_method = ''GET'', call_url = ''http://localhost:5001/health'',
                call_json = JNull\<rparr>"]
  by (simp add: app_def match_route_def path_is_def get_status_def proxy_request_def
        PROXY_URL_def upstream_down_def)

section \<open>Request bodies\<close>

lemma validate_flag_dump: "validate_flag lax loc (Some (dump_flag f)) = Inr f"
  by (cases f) (simp_all add: validate_flag_def dump_flag_def)

lemma validate_Permissions_dump:
  "validate_Permissions lax loc (Some (Permissions_model_dump p)) = Inr p"
  by (simp add: validate_Permissions_def Permissions_model_dump_def validate_flag_dump Let_def)

lemma validate_PolicyCreate_dump:
  "validate_PolicyCreate lax (PolicyCreate_model_dump payload) = Inr payload"
  by (simp add: validate_PolicyCreate_def PolicyCreate_model_dump_def validate_Permissions_dump
        validate_str_def Let_def)

lemma validate_str_Inr:
  "validate_str loc v = Inr s \<Longrightarrow> v = Some (JStr s)"
  by (auto simp: validate_str_def split: option.splits json.splits)

lemma validate_PolicyCreate_Inr:
  assumes "validate_PolicyCreate lax body = Inr payload"
  shows "json_get ''agentId'' body = Some (JStr (agentId payload))"
    and "json_get ''endpointId'' body = Some (JStr (endpointId payload))"
    and "validate_Permissions lax [''body'', ''permissions''] (json_get ''permissions'' body)
           = Inr (PolicyCreate.permissions payload)"
  using assms
  by (auto simp: validate_PolicyCreate_def Let_def dest!: validate_str_Inr
           split: json.splits sum.splits)

lemma validate_flag_Inr:
  assumes "validate_flag lax loc x = Inr f"
  shows "x = None \<or> x = Some JNull \<Longrightarrow> f = None"
    and "x = Some (JBool b) \<Longrightarrow> f = Some b"
  using assms by (auto simp: validate_flag_def)

lemma validate_Permissions_Inr:
  assumes "validate_Permissions lax loc v = Inr p"
  shows "v = None \<and> p = \<lparr>read = None, create = None, update = None, delete = None\<rparr>
       \<or> (\<exists>kvs. v = Some (JObj kvs)
            \<and> validate_flag lax (loc @ [''read'']) (map_of kvs ''read'') = Inr (read p)
            \<and> validate_flag lax (loc @ [''create'']) (map_of kvs ''create'') = Inr (create p)
            \<and> validate_flag lax (loc @ [''update'']) (map_of kvs ''update'') = Inr (update p)
            \<and> validate_flag lax (loc @ [''delete'']) (map_of kvs ''delete'') = Inr (delete p))"
  using assms
  by (auto simp: validate_Permissions_def Let_def split: option.splits json.splits sum.splits)


lemma dumped_flag_keys:
  "json_keys (Permissions_model_dump p) = [''read'', ''create'', ''update'', ''delete'']"
  by (simp add: Permissions_model_dump_def)

lemma validate_flag_unset:
  "validate_flag lax loc x = Inr f \<Longrightarrow> x = None \<or> x = Some JNull \<Longrightarrow> dump_flag f = JNull"
  by (auto simp: validate_flag_def dump_flag_def)

lemma validate_flag_bool:
  "validate_flag lax loc (Some (JBool b)) = Inr f \<Longrightarrow> dump_flag f = JBool b"
  by (auto simp: validate_flag_def dump_flag_def)

lemma dumped_flag_get:
  "json_get ''read'' (Permissions_model_dump p) = Some (dump_flag (read p))"
  "json_get ''create'' (Permissions_model_dump p) = Some (dump_flag (create p))"
  "json_get ''update'' (Permissions_model_dump p) = Some (dump_flag (update p))"
  "json_get ''delete'' (Permissions_model_dump p) = Some (dump_flag (delete p))"
  by (simp_all add: Permissions_model_dump_def)

lemma validated_flag_unset:
  assumes v: "validate_Permissions lax loc v = Inr p"
      and k: "k \<in> set [''read'', ''create'', ''update'', ''delete'']"
      and u: "(case v of None \<Rightarrow> None | Some pj \<Rightarrow> json_get k pj) = None
              \<or> (case v of None \<Rightarrow> None | Some pj \<Rightarrow> json_get k pj) = Some JNull"
  shows "json_get k (Permissions_model_dump p) = Some JNull"
proof -
  from validate_Permissions_Inr[OF v] consider
      (absent) "v = None" "p = \<lparr>read = None, create = None, update = None, delete = None\<rparr>"
    | (given) kvs where "v = Some (JObj kvs)"
        "validate_flag lax (loc @ [''read'']) (map_of kvs ''read'') = Inr (read p)"
        "validate_flag lax (loc @ [''create'']) (map_of kvs ''create'') = Inr (create p)"
        "validate_flag lax (loc @ [''update'']) (map_of kvs ''update'') = Inr (update p)"
        "validate_flag lax (loc @ [''delete'']) (map_of kvs ''delete'') = Inr (delete p)"
    by blast
  then show ?thesis
  proof cases
    case absent
    from k have "k = ''read'' \<or> k = ''create'' \<or> k = ''update'' \<or> k = ''delete''" by simp
    with absent(2) show ?thesis
      by (elim disjE) (simp_all add: dumped_flag_get dump_flag_def)
  next
    case given
    from u given(1) have m: "map_of kvs k = None \<or> map_of kvs k = Some JNull" by simp
    from k have "k = ''read'' \<or> k = ''create'' \<or> k = ''update'' \<or> k = ''delete''" by simp
    then show ?thesis
    proof (elim disjE)
      assume "k = ''read''"
      with m validate_flag_unset[OF given(2)] show ?thesis by (simp add: dumped_flag_get)
    next
      assume "k = ''create''"
      with m validate_flag_unset[OF given(3)] show ?thesis by (simp add: dumped_flag_get)
    next
      assume "k = ''update''"
      with m validate_flag_unset[OF given(4)] show ?thesis by (simp add: dumped_flag_get)
    next
      assume "k = ''delete''"
      with m validate_flag_unset[OF given(5)] show ?thesis by (simp add: dumped_flag_get)
    qed
  qed
qed


lemma validated_flag_bool:
  assumes v: "validate_Permissions lax loc v = Inr p"
      and k: "k \<in> set [''read'', ''create'', ''update'', ''delete'']"
      and u: "(case v of None \<Rightarrow> None | Some pj \<Rightarrow> json_get k pj) = Some (JBool b)"
  shows "json_get k (Permissions_model_dump p) = Some (JBool b)"
proof -
  from u obtain pj where pj: "v = Some pj" by (cases v) simp_all
  with validate_Permissions_Inr[OF v] obtain kvs where given: "v = Some (JObj kvs)"
        "validate_flag lax (loc @ [''read'']) (map_of kvs ''read'') = Inr (read p)"
        "validate_flag lax (loc @ [''create'']) (map_of kvs ''create'') = Inr (create p)"
        "validate_flag lax (loc @ [''update'']) (map_of kvs ''update'') = Inr (update p)"
        "validate_flag lax (loc @ [''delete'']) (map_of kvs ''delete'') = Inr (delete p)"
    by auto
  from u given(1) have m: "map_of kvs k = Some (JBool b)" by simp
  from k have "k = ''read'' \<or> k = ''create'' \<or> k = ''update'' \<or> k = ''delete''" by simp
  then show ?thesis
  proof (elim disjE)
    assume "k = ''read''"
    with m given(2) validate_flag_bool[of lax _ b "read p"] show ?thesis
      by (simp add: dumped_flag_get)
  next
    assume "k = ''create''"
    with m given(3) validate_flag_bool[of lax _ b "create p"] show ?thesis
      by (simp add: dumped_flag_get)
  next
    assume "k = ''update''"
    with m given(4) validate_flag_bool[of lax _ b "update p"] show ?thesis
      by (simp add: dumped_flag_get)
  next
    assume "k = ''delete''"
    with m given(5) validate_flag_bool[of lax _ b "delete p"] show ?thesis
      by (simp add: dumped_flag_get)
  qed
qed

lemma validate_PolicyUpdate_Inr:
  assumes "validate_PolicyUpdate lax body = Inr payload"
  shows "validate_Permissions lax [''body'', ''permissions''] (json_get ''permissions'' body)
           = Inr (PolicyUpdate.permissions payload)"
  using assms
  by (auto simp: validate_PolicyUpdate_def split: json.splits sum.splits)

lemma match_route_post:
  "match_route ''POST'' path = (if path_is ''/policies'' path then Some Create_policy else None)"
  by (simp add: match_route_def)

lemma match_route_put:
  "match_route ''PUT'' path = map_option Update_policy (path_param ''/policies/'' path)"
  by (simp add: match_route_def)

lemma app_post_forwarded:
  assumes "app e ''POST'' path body = Some (calls, out)" and "c \<in> set calls"
  shows "\<exists>payload. validate_PolicyCreate (lax_bool e) body = Inr payload
           \<and> c = \<lparr>call_method = ''POST'', call_url = PROXY_URL e @ ''/api/policies'',
                  call_json = PolicyCreate_model_dump payload\<rparr>"
proof -
  from assms(1) have s: "serve e body Create_policy = (calls, out)"
    by (auto simp: app_def match_route_post split: if_splits)
  show ?thesis
  proof (cases "validate_PolicyCreate (lax_bool e) body")
    case (Inl errs)
    with s assms(2) show ?thesis by auto
  next
    case (Inr payload)
    with s have "calls = fst (create_policy e payload)" by simp
    with assms(2) Inr show ?thesis
      by (simp add: create_policy_def proxy_request_calls)
  qed
qed

lemma app_put_forwarded:
  assumes "app e ''PUT'' path body = Some (calls, out)" and "c \<in> set calls"
  shows "\<exists>payload a. validate_PolicyUpdate (lax_bool e) body = Inr payload
           \<and> c = \<lparr>call_method = ''PUT'', call_url = PROXY_URL e @ ''/api/policies/'' @ a,
                  call_json = PolicyUpdate_model_dump payload\<rparr>"
proof -
  from assms(1) obtain a where s: "serve e body (Update_policy a) = (calls, out)"
    by (auto simp: app_def match_route_put)
  show ?thesis
  proof (cases "validate_PolicyUpdate (lax_bool e) body")
    case (Inl errs)
    with s assms(2) show ?thesis by auto
  next
    case (Inr payload)
    with s have "calls = fst (update_policy e a payload)" by simp
    with assms(2) Inr show ?thesis
      by (simp add: update_policy_def proxy_request_calls)
  qed
qed

lemma flag_of_body_create:
  "flag_of_body (PolicyCreate_model_dump payload) k
     = json_get k (Permissions_model_dump (PolicyCreate.permissions payload))"
  by (simp add: flag_of_body_def PolicyCreate_model_dump_def)

lemma flag_of_body_update:
  "flag_of_body (PolicyUpdate_model_dump payload) k
     = json_get k (Permissions_model_dump (PolicyUpdate.permissions payload))"
  by (simp add: flag_of_body_def PolicyUpdate_model_dump_def)

lemma create_flags_unset:
  assumes "validate_PolicyCreate lax body = Inr payload"
      and "k \<in> set [''read'', ''create'', ''update'', ''delete'']"
      and "flag_of_body body k = None \<or> flag_of_body body k = Some JNull"
  shows "flag_of_body (PolicyCreate_model_dump payload) k = Some JNull"
  unfolding flag_of_body_create
  using validated_flag_unset[OF validate_PolicyCreate_Inr(3)[OF assms(1)] assms(2)] assms(3)
  by (simp add: flag_of_body_def)

lemma create_flags_bool:
  assumes "validate_PolicyCreate lax body = Inr payload"
      and "k \<in> set [''read'', ''create'', ''update'', ''delete'']"
      and "flag_of_body body k = Some (JBool b)"
  shows "flag_of_body (PolicyCreate_model_dump payload) k = Some (JBool b)"
  unfolding flag_of_body_create
  using validated_flag_bool[OF validate_PolicyCreate_Inr(3)[OF assms(1)] assms(2)] assms(3)
  by (simp add: flag_of_body_def)

lemma update_flags_unset:
  assumes "validate_PolicyUpdate lax body = Inr payload"
      and "k \<in> set [''read'', ''create'', ''update'', ''delete'']"
      and "flag_of_body body k = None \<or> flag_of_body body k = Some JNull"
  shows "flag_of_body (PolicyUpdate_model_dump payload) k = Some JNull"
  unfolding flag_of_body_update
  using validated_flag_unset[OF validate_PolicyUpdate_Inr[OF assms(1)] assms(2)] assms(3)
  by (simp add: flag_of_body_def)

lemma validate_flag_lax:
  assumes "validate_flag lax loc (Some x) = Inr f" and "x \<noteq> JNull" and "x \<noteq> JBool True" and "x \<noteq> JBool False"
  shows "\<exists>b. lax x = Some b \<and> dump_flag f = JBool b"
proof (cases "lax x")
  case None
  with assms(2,3,4) have "validate_flag lax loc (Some x) = Inl [Invalid loc]"
    by (cases x) (simp_all add: validate_flag_def)
  with assms(1) show ?thesis by simp
next
  case (Some b)
  with assms(2,3,4) have "validate_flag lax loc (Some x) = Inr (Some b)"
    by (cases x) (simp_all add: validate_flag_def)
  with assms(1) have "f = Some b" by simp
  with Some show ?thesis by (simp add: dump_flag_def)
qed

lemma validated_flag_lax:
  assumes v: "validate_Permissions lax loc v = Inr p"
      and k: "k \<in> set [''read'', ''create'', ''update'', ''delete'']"
      and u: "(case v of None \<Rightarrow> None | Some pj \<Rightarrow> json_get k pj) = Some x"
      and x: "x \<noteq> JNull" "x \<noteq> JBool True" "x \<noteq> JBool False"
  shows "\<exists>b. lax x = Some b \<and> json_get k (Permissions_model_dump p) = Some (JBool b)"
proof -
  from u obtain pj where pj: "v = Some pj" by (cases v) simp_all
  with validate_Permissions_Inr[OF v] obtain kvs where given: "v = Some (JObj kvs)"
        "validate_flag lax (loc @ [''read'']) (map_of kvs ''read'') = Inr (read p)"
        "validate_flag lax (loc @ [''create'']) (map_of kvs ''create'') = Inr (create p)"
        "validate_flag lax (loc @ [''update'']) (map_of kvs ''update'') = Inr (update p)"
        "validate_flag lax (loc @ [''delete'']) (map_of kvs ''delete'') = Inr (delete p)"
    by auto
  from u given(1) have m: "map_of kvs k = Some x" by simp
  from k have "k = ''read'' \<or> k = ''create'' \<or> k = ''update'' \<or> k = ''delete''" by simp
  then show ?thesis
  proof (elim disjE)
    assume "k = ''read''"
    with m given(2) validate_flag_lax[of lax _ x "read p", OF _ x] show ?thesis
      by (simp add: dumped_flag_get)
  next
    assume "k = ''create''"
    with m given(3) validate_flag_lax[of lax _ x "create p", OF _ x] show ?thesis
      by (simp add: dumped_flag_get)
  next
    assume "k = ''update''"
    with m given(4) validate_flag_lax[of lax _ x "update p", OF _ x] show ?thesis
      by (simp add: dumped_flag_get)
  next
    assume "k = ''delete''"
    with m given(5) validate_flag_lax[of lax _ x "delete p", OF _ x] show ?thesis
      by (simp add: dumped_flag_get)
  qed
qed

lemma create_flags_lax:
  assumes "validate_PolicyCreate lax body = Inr payload"
      and "k \<in> set [''read'', ''create'', ''update'', ''delete'']"
      and "flag_of_body body k = Some x"
      and "x \<noteq> JNull" and "x \<noteq> JBool True" and "x \<noteq> JBool False"
  shows "\<exists>b. lax x = Some b \<and> flag_of_body (PolicyCreate_model_dump payload) k = Some (JBool b)"
  unfolding flag_of_body_create
  using validated_flag_lax[OF validate_PolicyCreate_Inr(3)[OF assms(1)] assms(2) _ assms(4,5,6)]
        assms(3)
  by (simp add: flag_of_body_def)

lemma app_post_accepted:
  assumes "validate_PolicyCreate (lax_bool e) body = Inr payload"
  shows "map_option fst (app e ''POST'' ''/policies'' body)
           = Some [\<lparr>call_method = ''POST'', call_url = PROXY_URL e @ ''/api/policies'',
                    call_json = PolicyCreate_model_dump payload\<rparr>]"
  using assms by (simp add: app_create_policy proxy_request_calls)

lemma app_put_accepted:
  assumes "a \<noteq> []" and "CHR ''/'' \<notin> set a"
      and "validate_PolicyUpdate (lax_bool e) body = Inr payload"
  shows "map_option fst (app e ''PUT'' (''/policies/'' @ a) body)
           = Some [\<lparr>call_method = ''PUT'', call_url = PROXY_URL e @ ''/api/policies/'' @ a,
                    call_json = PolicyUpdate_model_dump payload\<rparr>]"
  using assms(3) unfolding app_update_policy[OF assms(1,2)]
  by (simp add: proxy_request_calls)

lemma validate_flag_strict:
  assumes "x \<in> set [None, Some JNull, Some (JBool True), Some (JBool False)]"
  shows "validate_flag lax loc x = Inr (flag_value x)"
  using assms by (auto simp: validate_flag_def)

lemma validate_Permissions_strict:
  assumes "v = None \<or> (\<exists>pk. v = Some (JObj pk))"
      and "\<forall>k \<in> set [''read'', ''create'', ''update'', ''delete''].
             (case v of None \<Rightarrow> None | Some pj \<Rightarrow> json_get k pj)
               \<in> set [None, Some JNull, Some (JBool True), Some (JBool False)]"
  shows "validate_Permissions lax loc v =
           Inr \<lparr>read = flag_value (case v of None \<Rightarrow> None | Some pj \<Rightarrow> json_get ''read'' pj),
                create = flag_value (case v of None \<Rightarrow> None | Some pj \<Rightarrow> json_get ''create'' pj),
                update = flag_value (case v of None \<Rightarrow> None | Some pj \<Rightarrow> json_get ''update'' pj),
                delete = flag_value (case v of None \<Rightarrow> None | Some pj \<Rightarrow> json_get ''delete'' pj)\<rparr>"
  using assms(1)
proof
  assume "v = None"
  then show ?thesis by (simp add: validate_Permissions_def)
next
  assume "\<exists>pk. v = Some (JObj pk)"
  then obtain pk where pk: "v = Some (JObj pk)" by blast
  from assms(2) pk have m:
    "map_of pk ''read'' \<in> set [None, Some JNull, Some (JBool True), Some (JBool False)]"
    "map_of pk ''create'' \<in> set [None, Some JNull, Some (JBool True), Some (JBool False)]"
    "map_of pk ''update'' \<in> set [None, Some JNull, Some (JBool True), Some (JBool False)]"
    "map_of pk ''delete'' \<in> set [None, Some JNull, Some (JBool True), Some (JBool False)]"
    by simp_all
  have
    "validate_flag lax (loc @ [''read'']) (map_of pk ''read'') = Inr (flag_value (map_of pk ''read''))"
    "validate_flag lax (loc @ [''create'']) (map_of pk ''create'') = Inr (flag_value (map_of pk ''create''))"
    "validate_flag lax (loc @ [''update'']) (map_of pk ''update'') = Inr (flag_value (map_of pk ''update''))"
    "validate_flag lax (loc @ [''delete'']) (map_of pk ''delete'') = Inr (flag_value (map_of pk ''delete''))"
    by (rule validate_flag_strict, rule m)+
  then show ?thesis
    by (simp add: validate_Permissions_def pk Let_def)
qed


lemma validate_PolicyUpdate_strict:
  assumes "map_of kvs ''permissions'' = None \<or> (\<exists>pk. map_of kvs ''permissions'' = Some (JObj pk))"
      and "\<forall>k \<in> set [''read'', ''create'', ''update'', ''delete''].
             flag_of_body (JObj kvs) k
               \<in> set [None, Some JNull, Some (JBool True), Some (JBool False)]"
  shows "validate_PolicyUpdate lax (JObj kvs) =
           Inr \<lparr>permissions =
                  \<lparr>read = flag_value (flag_of_body (JObj kvs) ''read''),
                   create = flag_value (flag_of_body (JObj kvs) ''create''),
                   update = flag_value (flag_of_body (JObj kvs) ''update''),
                   delete = flag_value (flag_of_body (JObj kvs) ''delete'')\<rparr>\<rparr>"
proof -
  from assms(2) have "\<forall>k \<in> set [''read'', ''create'', ''update'', ''delete''].
             (case map_of kvs ''permissions'' of None \<Rightarrow> None | Some pj \<Rightarrow> json_get k pj)
               \<in> set [None, Some JNull, Some (JBool True), Some (JBool False)]"
    by (simp add: flag_of_body_def)
  from validate_Permissions_strict[OF assms(1) this, of lax "[''body'', ''permissions'']"]
  show ?thesis
    by (simp add: validate_PolicyUpdate_def flag_of_body_def)
qed

lemma validate_PolicyCreate_strict:
  assumes "map_of kvs ''agentId'' = Some (JStr i)"
      and "map_of kvs ''endpointId'' = Some (JStr n)"
      and "map_of kvs ''permissions'' = None \<or> (\<exists>pk. map_of kvs ''permissions'' = Some (JObj pk))"
      and "\<forall>k \<in> set [''read'', ''create'', ''update'', ''delete''].
             flag_of_body (JObj kvs) k
               \<in> set [None, Some JNull, Some (JBool True), Some (JBool False)]"
  shows "validate_PolicyCreate lax (JObj kvs) =
           Inr \<lparr>agentId = i, endpointId = n,
                permissions =
                  \<lparr>read = flag_value (flag_of_body (JObj kvs) ''read''),
                   create = flag_value (flag_of_body (JObj kvs) ''create''),
                   update = flag_value (flag_of_body (JObj kvs) ''update''),
                   delete = flag_value (flag_of_body (JObj kvs) ''delete'')\<rparr>\<rparr>"
proof -
  from assms(4) have "\<forall>k \<in> set [''read'', ''create'', ''update'', ''delete''].
             (case map_of kvs ''permissions'' of None \<Rightarrow> None | Some pj \<Rightarrow> json_get k pj)
               \<in> set [None, Some JNull, Some (JBool True), Some (JBool False)]"
    by (simp add: flag_of_body_def)
  from validate_Permissions_strict[OF assms(3) this, of lax "[''body'', ''permissions'']"]
       assms(1,2)
  show ?thesis
    by (simp add: validate_PolicyCreate_def validate_str_def flag_of_body_def Let_def)
qed

lemma app_post_strict:
  assumes "map_of kvs ''agentId'' = Some (JStr i)"
      and "map_of kvs ''endpointId'' = Some (JStr n)"
      and "map_of kvs ''permissions'' = None \<or> (\<exists>pk. map_of kvs ''permissions'' = Some (JObj pk))"
      and "\<forall>k \<in> set [''read'', ''create'', ''update'', ''delete''].
             flag_of_body (JObj kvs) k
               \<in> set [None, Some JNull, Some (JBool True), Some (JBool False)]"
  shows "map_option fst (app e ''POST'' ''/policies'' (JObj kvs))
           = Some [\<lparr>call_method = ''POST'', call_url = PROXY_URL e @ ''/api/policies'',
                    call_json =
                      JObj [(''agentId'', JStr i), (''endpointId'', JStr n),
                            (''permissions'',
                             JObj [(''read'', dump_flag (flag_value (flag_of_body (JObj kvs) ''read''))),
                                   (''create'', dump_flag (flag_value (flag_of_body (JObj kvs) ''create''))),
                                   (''update'', dump_flag (flag_value (flag_of_body (JObj kvs) ''update''))),
                                   (''delete'', dump_flag (flag_value (flag_of_body (JObj kvs) ''delete'')))])]\<rparr>]"
  unfolding app_post_accepted[OF validate_PolicyCreate_strict[OF assms]]
  by (simp add: PolicyCreate_model_dump_def Permissions_model_dump_def)

lemma app_put_strict:
  assumes "a \<noteq> []" and "CHR ''/'' \<notin> set a"
      and "map_of kvs ''permissions'' = None \<or> (\<exists>pk. map_of kvs ''permissions'' = Some (JObj pk))"
      and "\<forall>k \<in> set [''read'', ''create'', ''update'', ''delete''].
             flag_of_body (JObj kvs) k
               \<in> set [None, Some JNull, Some (JBool True), Some (JBool False)]"
  shows "map_option fst (app e ''PUT'' (''/policies/'' @ a) (JObj kvs))
           = Some [\<lparr>call_method = ''PUT'', call_url = PROXY_URL e @ ''/api/policies/'' @ a,
                    call_json =
                      JObj [(''permissions'',
                             JObj [(''read'', dump_flag (flag_value (flag_of_body (JObj kvs) ''read''))),
                                   (''create'', dump_flag (flag_value (flag_of_body (JObj kvs) ''create''))),
                                   (''update'', dump_flag (flag_value (flag_of_body (JObj kvs) ''update''))),
                                   (''delete'', dump_flag (flag_value (flag_of_body (JObj kvs) ''delete'')))])]\<rparr>]"
  unfolding app_put_accepted[OF assms(1,2) validate_PolicyUpdate_strict[OF assms(3,4)]]
  by (simp add: PolicyUpdate_model_dump_def Permissions_model_dump_def)

lemma unset_flag_is_null:
  "x = None \<or> x = Some JNull \<Longrightarrow> dump_flag (flag_value x) = JNull"
  by (auto simp: dump_flag_def)


lemma create_policy_forwarded_fields:
  assumes "validate_PolicyCreate (lax_bool e) body = Inr payload"
  shows "map_option fst (app e ''POST'' ''/policies'' body)
           = Some [\<lparr>call_method = ''POST'', call_url = PROXY_URL e @ ''/api/policies'',
                    call_json = PolicyCreate_model_dump payload\<rparr>]
       \<and> json_keys (PolicyCreate_model_dump payload) = [''agentId'', ''endpointId'', ''permissions'']
       \<and> json_get ''agentId'' (PolicyCreate_model_dump payload) = json_get ''agentId'' body
       \<and> json_get ''endpointId'' (PolicyCreate_model_dump payload) = json_get ''endpointId'' body
       \<and> (\<forall>k \<in> set [''read'', ''create'', ''update'', ''delete'']. \<forall>b.
             flag_of_body body k = Some (JBool b)
             \<longrightarrow> flag_of_body (PolicyCreate_model_dump payload) k = Some (JBool b))
       \<and> (\<forall>k \<in> set [''read'', ''create'', ''update'', ''delete''].
             flag_of_body body k = None \<or> flag_of_body body k = Some JNull
             \<longrightarrow> flag_of_body (PolicyCreate_model_dump payload) k = Some JNull)
       \<and> validate_PolicyCreate lax (PolicyCreate_model_dump payload) = Inr payload"
proof (intro conjI ballI allI impI)
  show "map_option fst (app e ''POST'' ''/policies'' body)
           = Some [\<lparr>call_method = ''POST'', call_url = PROXY_URL e @ ''/api/policies'',
                    call_json = PolicyCreate_model_dump payload\<rparr>]"
    using assms by (simp add: app_create_policy proxy_request_calls)
  show "json_keys (PolicyCreate_model_dump payload) = [''agentId'', ''endpointId'', ''permissions'']"
    by (simp add: PolicyCreate_model_dump_def)
  show "json_get ''agentId'' (PolicyCreate_model_dump payload) = json_get ''agentId'' body"
    using validate_PolicyCreate_Inr(1)[OF assms] by (simp add: PolicyCreate_model_dump_def)
  show "json_get ''endpointId'' (PolicyCreate_model_dump payload) = json_get ''endpointId'' body"
    using validate_PolicyCreate_Inr(2)[OF assms] by (simp add: PolicyCreate_model_dump_def)
  show "validate_PolicyCreate lax (PolicyCreate_model_dump payload) = Inr payload"
    by (rule validate_PolicyCreate_dump)
next
  fix k b
  assume "k \<in> set [''read'', ''create'', ''update'', ''delete'']"
    and "flag_of_body body k = Some (JBool b)"
  then show "flag_of_body (PolicyCreate_model_dump payload) k = Some (JBool b)"
    by (rule create_flags_bool[OF assms])
next
  fix k
  assume "k \<in> set [''read'', ''create'', ''update'', ''delete'']"
    and "flag_of_body body k = None \<or> flag_of_body body k = Some JNull"
  then show "flag_of_body (PolicyCreate_model_dump payload) k = Some JNull"
    by (rule create_flags_unset[OF assms])
qed

text \<open>
  C6, as stated: the body forwarded by POST /policies has the same permission flag
  values as the inbound body. This fails for a flag that validation accepts in another
  form than a boolean: the integer 1 is forwarded as \<^verbatim>\<open>true\<close>.
\<close>

theorem create_policy_round_trip_counterexample:
  "validate_PolicyCreate (lax_bool (upstream_answers resp_201_json)) body_lax = Inr payload_a1
   \<and> flag_of_body body_lax ''read'' = Some (JInt 1)
   \<and> map_option fst (app (upstream_answers resp_201_json) ''POST'' ''/policies'' body_lax)
       = Some [\<lparr>call_method = ''POST'', call_url = ''http://localhost:5001/api/policies'',
                call_json =
                  JObj [(''agentId'', JStr ''a1''), (''endpointId'', JStr ''e1''),
                        (''permissions'',
                         JObj [(''read'', JBool True), (''create'', JNull),
                               (''update'', JNull), (''delete'', JNull)])]\<rparr>]"
proof -
  have v: "validate_PolicyCreate (lax_bool (upstream_answers resp_201_json)) body_lax
             = Inr payload_a1"
    by (simp add: validate_PolicyCreate_def validate_Permissions_def validate_flag_def
          validate_str_def body_lax_def payload_a1_def upstream_answers_def
          pydantic_lax_bool_def Let_def)
  have f: "flag_of_body body_lax ''read'' = Some (JInt 1)"
    by (simp add: flag_of_body_def body_lax_def)
  have "map_option fst (app (upstream_answers resp_201_json) ''POST'' ''/policies'' body_lax)
       = Some [\<lparr>call_method = ''POST'', call_url = ''http://localhost:5001/api/policies'',
                call_json =
                  JObj [(''agentId'', JStr ''a1''), (''endpointId'', JStr ''e1''),
                        (''permissions'',
                         JObj [(''read'', JBool True), (''create'', JNull),
                               (''update'', JNull), (''delete'', JNull)])]\<rparr>]"
    unfolding app_post_accepted[OF v]
    by (simp add: PolicyCreate_model_dump_def Permissions_model_dump_def dump_flag_def
          payload_a1_def PROXY_URL_def upstream_answers_def)
  with v f show ?thesis by simp
qed

text \<open>
  C6, amended. When the body of POST /policies validates to a payload, exactly one call
  goes upstream, POST /api/policies, and its JSON body is the serialised payload: the
  keys \<open>agentId\<close>, \<open>endpointId\<close> and \<open>permissions\<close>, with the same \<open>agentId\<close> and
  \<open>endpointId\<close> values as the inbound body, every flag that is a boolean in the
  inbound body unchanged, every flag the inbound body leaves out or sets to null
  written as null, and every flag given in another accepted form written as the boolean
  it converts to. Validating the forwarded body gives the payload back.
\<close>

theorem create_policy_round_trip:
  assumes "validate_PolicyCreate (lax_bool e) body = Inr payload"
  shows "map_option fst (app e ''POST'' ''/policies'' body)
           = Some [\<lparr>call_method = ''POST'', call_url = PROXY_URL e @ ''/api/policies'',
                    call_json = PolicyCreate_model_dump payload\<rparr>]
       \<and> json_keys (PolicyCreate_model_dump payload) = [''agentId'', ''endpointId'', ''permissions'']
       \<and> json_get ''agentId'' (PolicyCreate_model_dump payload) = json_get ''agentId'' body
       \<and> json_get ''endpointId'' (PolicyCreate_model_dump payload) = json_get ''endpointId'' body
       \<and> (\<forall>k \<in> set [''read'', ''create'', ''update'', ''delete'']. \<forall>b.
             flag_of_body body k = Some (JBool b)
             \<longrightarrow> flag_of_body (PolicyCreate_model_dump payload) k = Some (JBool b))
       \<and> (\<forall>k \<in> set [''read'', ''create'', ''update'', ''delete''].
             flag_of_body body k = None \<or> flag_of_body body k = Some JNull
             \<longrightarrow> flag_of_body (PolicyCreate_model_dump payload) k = Some JNull)
       \<and> (\<forall>k \<in> set [''read'', ''create'', ''update'', ''delete'']. \<forall>x.
             flag_of_body body k = Some x \<longrightarrow> x \<noteq> JNull \<longrightarrow> x \<noteq> JBool True
             \<longrightarrow> x \<noteq> JBool False
             \<longrightarrow> (\<exists>b. lax_bool e x = Some b
                      \<and> flag_of_body (PolicyCreate_model_dump payload) k = Some (JBool b)))
       \<and> validate_PolicyCreate lax (PolicyCreate_model_dump payload) = Inr payload"
proof -
  note f = create_policy_forwarded_fields[OF assms, of lax]
  have l: "\<forall>k \<in> set [''read'', ''create'', ''update'', ''delete'']. \<forall>x.
             flag_of_body body k = Some x \<longrightarrow> x \<noteq> JNull \<longrightarrow> x \<noteq> JBool True
             \<longrightarrow> x \<noteq> JBool False
             \<longrightarrow> (\<exists>b. lax_bool e x = Some b
                      \<and> flag_of_body (PolicyCreate_model_dump payload) k = Some (JBool b))"
    using create_flags_lax[OF assms] by blast
  from f l show ?thesis by blast
qed

theorem create_policy_round_trip_witness:
  "validate_PolicyCreate (lax_bool (upstream_answers resp_201_json)) body_a1 = Inr payload_a1
   \<and> map_option fst (app (upstream_answers resp_201_json) ''POST'' ''/policies'' body_a1)
       = Some [\<lparr>call_method = ''POST'', call_url = ''http://localhost:5001/api/policies'',
                call_json =
                  JObj [(''agentId'', JStr ''a1''), (''endpointId'', JStr ''e1''),
                        (''permissions'',
                         JObj [(''read'', JBool True), (''create'', JNull),
                               (''update'', JNull), (''delete'', JNull)])]\<rparr>]"
proof -
  have v: "validate_PolicyCreate (lax_bool (upstream_answers resp_201_json)) body_a1 = Inr payload_a1"
    by (simp add: validate_PolicyCreate_def validate_Permissions_def validate_flag_def
          validate_str_def body_a1_def payload_a1_def Let_def)
  from create_policy_round_trip[OF v] v show ?thesis
    by (simp add: PolicyCreate_model_dump_def Permissions_model_dump_def dump_flag_def
          payload_a1_def PROXY_URL_def upstream_answers_def)
qed

subsection \<open>Required fields\<close>

lemma validate_str_cases:
  "(\<exists>s. v = Some (JStr s) \<and> validate_str loc v = Inr s)
   \<or> (\<exists>x. validate_str loc v = Inl [x] \<and> (\<forall>s. v \<noteq> Some (JStr s)))"
  by (auto simp: validate_str_def split: option.splits json.splits)

lemma validate_PolicyCreate_Inl_agent:
  assumes "validate_str [''body'', ''agentId''] (map_of kvs ''agentId'') = Inl [x]"
  shows "\<exists>errs. validate_PolicyCreate lax (JObj kvs) = Inl (x # errs)"
  using assms by (simp add: validate_PolicyCreate_def Let_def)

lemma validate_PolicyCreate_Inl_endpoint:
  assumes "validate_str [''body'', ''endpointId''] (map_of kvs ''endpointId'') = Inl [x]"
  shows "\<exists>errs. errs \<noteq> [] \<and> validate_PolicyCreate lax (JObj kvs) = Inl errs"
proof (cases "validate_str [''body'', ''agentId''] (map_of kvs ''agentId'')")
  case (Inl errs)
  with assms show ?thesis by (simp add: validate_PolicyCreate_def Let_def)
next
  case (Inr a)
  with assms show ?thesis by (simp add: validate_PolicyCreate_def Let_def)
qed

lemma validate_PolicyCreate_rejects:
  assumes "(\<forall>s. json_get ''agentId'' body \<noteq> Some (JStr s))
           \<or> (\<forall>s. json_get ''endpointId'' body \<noteq> Some (JStr s))"
  shows "\<exists>errs. errs \<noteq> [] \<and> validate_PolicyCreate lax body = Inl errs"
proof (cases body)
  case (JObj kvs)
  from assms show ?thesis
  proof
    assume "\<forall>s. json_get ''agentId'' body \<noteq> Some (JStr s)"
    with JObj validate_str_cases[of "map_of kvs ''agentId''" "[''body'', ''agentId'']"]
    obtain x where "validate_str [''body'', ''agentId''] (map_of kvs ''agentId'') = Inl [x]"
      by auto
    from validate_PolicyCreate_Inl_agent[OF this, of lax] JObj show ?thesis by auto
  next
    assume "\<forall>s. json_get ''endpointId'' body \<noteq> Some (JStr s)"
    with JObj validate_str_cases[of "map_of kvs ''endpointId''" "[''body'', ''endpointId'']"]
    obtain x where "validate_str [''body'', ''endpointId''] (map_of kvs ''endpointId'') = Inl [x]"
      by auto
    from validate_PolicyCreate_Inl_endpoint[OF this, of lax] JObj show ?thesis by auto
  qed
qed (simp_all add: validate_PolicyCreate_def)

lemma validate_body_empty_agent:
  "validate_PolicyCreate lax body_empty_agent
     = Inr \<lparr>agentId = [], endpointId = ''e1'',
            permissions = \<lparr>read = None, create = None, update = None, delete = None\<rparr>\<rparr>"
  by (simp add: validate_PolicyCreate_def validate_Permissions_def validate_str_def
        body_empty_agent_def Let_def)

text \<open>
  C7, as stated: a body of POST /policies whose \<open>agentId\<close> or \<open>endpointId\<close> is the
  empty string is refused and never forwarded. This fails: \<^verbatim>\<open>str\<close> is declared
  without a length constraint, so the empty string validates and the request goes
  upstream.
\<close>

theorem create_policy_requires_ids_counterexample:
  "json_get ''agentId'' body_empty_agent = Some (JStr [])
   \<and> app (upstream_answers resp_201_json) ''POST'' ''/policies'' body_empty_agent
       = Some ([\<lparr>call_method = ''POST'', call_url = ''http://localhost:5001/api/policies'',
                 call_json =
                   JObj [(''agentId'', JStr []), (''endpointId'', JStr ''e1''),
                         (''permissions'',
                          JObj [(''read'', JNull), (''create'', JNull),
                                (''update'', JNull), (''delete'', JNull)])]\<rparr>],
               Inr (JArr [JInt 1, JInt 2]))"
proof -
  have "json_get ''agentId'' body_empty_agent = Some (JStr [])"
    by (simp add: body_empty_agent_def)
  moreover have "app (upstream_answers resp_201_json) ''POST'' ''/policies'' body_empty_agent
       = Some ([\<lparr>call_method = ''POST'', call_url = ''http://localhost:5001/api/policies'',
                 call_json =
                   JObj [(''agentId'', JStr []), (''endpointId'', JStr ''e1''),
                         (''permissions'',
                          JObj [(''read'', JNull), (''create'', JNull),
                                (''update'', JNull), (''delete'', JNull)])]\<rparr>],
               Inr (JArr [JInt 1, JInt 2]))"
    unfolding app_create_policy validate_body_empty_agent
    by (simp add: proxy_request_def PolicyCreate_model_dump_def Permissions_model_dump_def
          dump_flag_def PROXY_URL_def upstream_answers_def resp_201_json_def)
  ultimately show ?thesis by (rule conjI)
qed

text \<open>
  C7, amended. \<open>agentId\<close> and \<open>endpointId\<close> are required strings: a body of
  POST /policies in which either is absent, or is not a JSON string, is refused with a
  validation error and no call goes upstream.
\<close>

theorem create_policy_requires_ids:
  assumes "(\<forall>s. json_get ''agentId'' body \<noteq> Some (JStr s))
           \<or> (\<forall>s. json_get ''endpointId'' body \<noteq> Some (JStr s))"
  shows "\<exists>errs. errs \<noteq> []
           \<and> app e ''POST'' ''/policies'' body = Some ([], Inl (RequestValidationError errs))"
proof -
  from validate_PolicyCreate_rejects[OF assms, of "lax_bool e"]
  obtain errs where "errs \<noteq> []" "validate_PolicyCreate (lax_bool e) body = Inl errs"
    by blast
  then show ?thesis by (auto simp: app_create_policy)
qed

theorem create_policy_requires_ids_witness:
  "((\<forall>s. json_get ''agentId'' body_no_agent \<noteq> Some (JStr s))
      \<or> (\<forall>s. json_get ''endpointId'' body_no_agent \<noteq> Some (JStr s)))
   \<and> (\<exists>errs. errs \<noteq> []
         \<and> app (upstream_answers resp_201_json) ''POST'' ''/policies'' body_no_agent
             = Some ([], Inl (RequestValidationError errs)))"
proof -
  have h: "(\<forall>s. json_get ''agentId'' body_no_agent \<noteq> Some (JStr s))
      \<or> (\<forall>s. json_get ''endpointId'' body_no_agent \<noteq> Some (JStr s))"
    by (simp add: body_no_agent_def)
  from create_policy_requires_ids[OF h] h show ?thesis by blast
qed

subsection \<open>Flags left unset\<close>

lemma forwarded_calls_permissions:
  assumes "app e method path body = Some (calls, out)"
      and "method = ''POST'' \<or> method = ''PUT''"
      and "c \<in> set calls"
  shows "(\<exists>p. json_get ''permissions'' (call_json c) = Some p
             \<and> json_keys p = [''read'', ''create'', ''update'', ''delete''])
       \<and> (\<forall>k \<in> set [''read'', ''create'', ''update'', ''delete''].
             flag_of_body body k = None \<or> flag_of_body body k = Some JNull
             \<longrightarrow> flag_of_body (call_json c) k = Some JNull)"
  using assms(2)
proof
  assume m: "method = ''POST''"
  from app_post_forwarded[OF assms(1)[unfolded m] assms(3)]
  obtain payload where v: "validate_PolicyCreate (lax_bool e) body = Inr payload"
    and c: "call_json c = PolicyCreate_model_dump payload"
    by auto
  have "json_get ''permissions'' (call_json c)
          = Some (Permissions_model_dump (PolicyCreate.permissions payload))"
    by (simp add: c PolicyCreate_model_dump_def)
  with dumped_flag_keys create_flags_unset[OF v] show ?thesis
    unfolding c by blast
next
  assume m: "method = ''PUT''"
  from app_put_forwarded[OF assms(1)[unfolded m] assms(3)]
  obtain payload where v: "validate_PolicyUpdate (lax_bool e) body = Inr payload"
    and c: "call_json c = PolicyUpdate_model_dump payload"
    by auto
  have "json_get ''permissions'' (call_json c)
          = Some (Permissions_model_dump (PolicyUpdate.permissions payload))"
    by (simp add: c PolicyUpdate_model_dump_def)
  with dumped_flag_keys update_flags_unset[OF v] show ?thesis
    unfolding c by blast
qed

text \<open>
  C9. POST /policies and PUT /policies/a forward a permissions object with exactly the
  keys \<open>read\<close>, \<open>create\<close>, \<open>update\<close> and \<open>delete\<close>, in which every flag that the
  inbound body leaves out or sets to null has the value null. This holds of every call
  that either route sends upstream; and a body whose \<open>permissions\<close> are absent or an
  object whose flags are each absent, null or a boolean is forwarded, as one call, with
  the four keys, the booleans kept and null elsewhere.
\<close>

theorem forwarded_permissions_complete:
  "(app e meth path body = Some (calls, out) \<longrightarrow> (meth = ''POST'' \<or> meth = ''PUT'')
      \<longrightarrow> c \<in> set calls
      \<longrightarrow> (\<exists>p. json_get ''permissions'' (call_json c) = Some p
                 \<and> json_keys p = [''read'', ''create'', ''update'', ''delete''])
           \<and> (\<forall>k \<in> set [''read'', ''create'', ''update'', ''delete''].
                 flag_of_body body k = None \<or> flag_of_body body k = Some JNull
                 \<longrightarrow> flag_of_body (call_json c) k = Some JNull))
   \<and> (map_of kvs ''agentId'' = Some (JStr i) \<longrightarrow>
      map_of kvs ''endpointId'' = Some (JStr n) \<longrightarrow>
      (map_of kvs ''permissions'' = None \<or> (\<exists>pk. map_of kvs ''permissions'' = Some (JObj pk))) \<longrightarrow>
      (\<forall>k \<in> set [''read'', ''create'', ''update'', ''delete''].
         flag_of_body (JObj kvs) k
           \<in> set [None, Some JNull, Some (JBool True), Some (JBool False)]) \<longrightarrow>
      map_option fst (app e ''POST'' ''/policies'' (JObj kvs))
           = Some [\<lparr>call_method = ''POST'', call_url = PROXY_URL e @ ''/api/policies'',
                    call_json =
                      JObj [(''agentId'', JStr i), (''endpointId'', JStr n),
                            (''permissions'',
                             JObj [(''read'', dump_flag (flag_value (flag_of_body (JObj kvs) ''read''))),
                                   (''create'', dump_flag (flag_value (flag_of_body (JObj kvs) ''create''))),
                                   (''update'', dump_flag (flag_value (flag_of_body (JObj kvs) ''update''))),
                                   (''delete'', dump_flag (flag_value (flag_of_body (JObj kvs) ''delete'')))])]\<rparr>])
   \<and> (a \<noteq> [] \<longrightarrow> CHR ''/'' \<notin> set a \<longrightarrow>
      (map_of ukvs ''permissions'' = None \<or> (\<exists>pk. map_of ukvs ''permissions'' = Some (JObj pk))) \<longrightarrow>
      (\<forall>k \<in> set [''read'', ''create'', ''update'', ''delete''].
         flag_of_body (JObj ukvs) k
           \<in> set [None, Some JNull, Some (JBool True), Some (JBool False)]) \<longrightarrow>
      map_option fst (app e ''PUT'' (''/policies/'' @ a) (JObj ukvs))
           = Some [\<lparr>call_method = ''PUT'', call_url = PROXY_URL e @ ''/api/policies/'' @ a,
                    call_json =
                      JObj [(''permissions'',
                             JObj [(''read'', dump_flag (flag_value (flag_of_body (JObj ukvs) ''read''))),
                                   (''create'', dump_flag (flag_value (flag_of_body (JObj ukvs) ''create''))),
                                   (''update'', dump_flag (flag_value (flag_of_body (JObj ukvs) ''update''))),
                                   (''delete'', dump_flag (flag_value (flag_of_body (JObj ukvs) ''delete'')))])]\<rparr>])
   \<and> (x = None \<or> x = Some JNull \<longrightarrow> dump_flag (flag_value x) = JNull)"
  using forwarded_calls_permissions[of e meth path body calls out c]
        app_post_strict[of kvs i n e] app_put_strict[of a ukvs e] unset_flag_is_null[of x]
  by blast

theorem forwarded_permissions_complete_witness:
  "map_option fst (app (upstream_answers resp_200_json) ''PUT'' ''/policies/a1'' body_update)
     = Some [\<lparr>call_method = ''PUT'', call_url = ''http://localhost:5001/api/policies/a1'',
              call_json =
                JObj [(''permissions'',
                       JObj [(''read'', JBool True), (''create'', JNull),
                             (''update'', JNull), (''delete'', JNull)])]\<rparr>]
   \<and> map_option fst (app (upstream_answers resp_201_json) ''POST'' ''/policies'' body_a1)
     = Some [\<lparr>call_method = ''POST'', call_url = ''http://localhost:5001/api/policies'',
              call_json =
                JObj [(''agentId'', JStr ''a1''), (''endpointId'', JStr ''e1''),
                      (''permissions'',
                       JObj [(''read'', JBool True), (''create'', JNull),
                             (''update'', JNull), (''delete'', JNull)])]\<rparr>]
   \<and> flag_of_body body_update ''create'' = None
   \<and> flag_of_body body_a1 ''create'' = None"
proof -
  have u: "map_option fst (app (upstream_answers resp_200_json) ''PUT'' ''/policies/a1'' body_update)
     = Some [\<lparr>call_method = ''PUT'', call_url = ''http://localhost:5001/api/policies/a1'',
              call_json =
                JObj [(''permissions'',
                       JObj [(''read'', JBool True), (''create'', JNull),
                             (''update'', JNull), (''delete'', JNull)])]\<rparr>]"
    using forwarded_permissions_complete
            [where a = "''a1''" and e = "upstream_answers resp_200_json"
               and ukvs = "[(''permissions'', JObj [(''read'', JBool True)])]"]
    by (simp add: body_update_def flag_of_body_def dump_flag_def PROXY_URL_def
          upstream_answers_def)
  have p: "map_option fst (app (upstream_answers resp_201_json) ''POST'' ''/policies'' body_a1)
     = Some [\<lparr>call_method = ''POST'', call_url = ''http://localhost:5001/api/policies'',
              call_json =
                JObj [(''agentId'', JStr ''a1''), (''endpointId'', JStr ''e1''),
                      (''permissions'',
                       JObj [(''read'', JBool True), (''create'', JNull),
                             (''update'', JNull), (''delete'', JNull)])]\<rparr>]"
    using forwarded_permissions_complete
            [where e = "upstream_answers resp_201_json" and i = "''a1''" and n = "''e1''"
               and kvs = "[(''agentId'', JStr ''a1''), (''endpointId'', JStr ''e1''),
                           (''permissions'', JObj [(''read'', JBool True)])]"]
    by (simp add: body_a1_def flag_of_body_def dump_flag_def PROXY_URL_def
          upstream_answers_def)
  from u p show ?thesis
    by (simp add: flag_of_body_def body_update_def body_a1_def)
qed


subsection \<open>Keys that are not declared\<close>

lemma map_of_filter_keys:
  "k \<in> S \<Longrightarrow> map_of (filter (\<lambda>kv. fst kv \<in> S) kvs) k = map_of kvs k"
  by (induction kvs) auto

lemma validate_PolicyCreate_declared:
  "validate_PolicyCreate lax
     (JObj (filter (\<lambda>kv. fst kv \<in> set [''agentId'', ''endpointId'', ''permissions'']) kvs))
   = validate_PolicyCreate lax (JObj kvs)"
proof -
  let ?S = "set [''agentId'', ''endpointId'', ''permissions'']"
  have "map_of (filter (\<lambda>kv. fst kv \<in> ?S) kvs) ''agentId'' = map_of kvs ''agentId''"
       "map_of (filter (\<lambda>kv. fst kv \<in> ?S) kvs) ''endpointId'' = map_of kvs ''endpointId''"
       "map_of (filter (\<lambda>kv. fst kv \<in> ?S) kvs) ''permissions'' = map_of kvs ''permissions''"
    by (rule map_of_filter_keys, simp)+
  then show ?thesis
    unfolding validate_PolicyCreate_def by (simp only: json.case)
qed

lemma validate_PolicyUpdate_declared:
  "validate_PolicyUpdate lax (JObj (filter (\<lambda>kv. fst kv \<in> set [''permissions'']) kvs))
   = validate_PolicyUpdate lax (JObj kvs)"
proof -
  have "map_of (filter (\<lambda>kv. fst kv \<in> set [''permissions'']) kvs) ''permissions''
          = map_of kvs ''permissions''"
    by (rule map_of_filter_keys) simp
  then show ?thesis
    unfolding validate_PolicyUpdate_def by (simp only: json.case)
qed

lemma serve_create_declared:
  "serve e (JObj (filter (\<lambda>kv. fst kv \<in> set [''agentId'', ''endpointId'', ''permissions'']) kvs))
     Create_policy
   = serve e (JObj kvs) Create_policy"
  by (simp only: serve.simps validate_PolicyCreate_declared)

lemma serve_update_declared:
  "serve e (JObj (filter (\<lambda>kv. fst kv \<in> set [''permissions'']) kvs)) (Update_policy a)
   = serve e (JObj kvs) (Update_policy a)"
  by (simp only: serve.simps validate_PolicyUpdate_declared)

lemma undeclared_keys_ignored:
  "app e ''POST'' path (JObj kvs)
     = app e ''POST'' path
         (JObj (filter (\<lambda>kv. fst kv \<in> set [''agentId'', ''endpointId'', ''permissions'']) kvs))
   \<and> app e ''PUT'' path (JObj kvs)
     = app e ''PUT'' path (JObj (filter (\<lambda>kv. fst kv \<in> set [''permissions'']) kvs))
   \<and> (app e ''POST'' path body = Some (calls, out) \<longrightarrow> c \<in> set calls
        \<longrightarrow> json_keys (call_json c) = [''agentId'', ''endpointId'', ''permissions''])
   \<and> (app e ''PUT'' path body = Some (calls, out) \<longrightarrow> c \<in> set calls
        \<longrightarrow> json_keys (call_json c) = [''permissions''])"
proof (intro conjI impI)
  show "app e ''POST'' path (JObj kvs)
     = app e ''POST'' path
         (JObj (filter (\<lambda>kv. fst kv \<in> set [''agentId'', ''endpointId'', ''permissions'']) kvs))"
  proof (cases "path_is ''/policies'' path")
    case True
    then have "match_route ''POST'' path = Some Create_policy" by (simp add: match_route_post)
    then show ?thesis
      unfolding app_def by (simp only: option.map serve_create_declared)
  next
    case False
    then have "match_route ''POST'' path = None" by (simp add: match_route_post)
    then show ?thesis
      unfolding app_def by (simp only: option.map)
  qed
  show "app e ''PUT'' path (JObj kvs)
     = app e ''PUT'' path (JObj (filter (\<lambda>kv. fst kv \<in> set [''permissions'']) kvs))"
  proof (cases "path_param ''/policies/'' path")
    case None
    then have "match_route ''PUT'' path = None" by (simp add: match_route_put)
    then show ?thesis
      unfolding app_def by (simp only: option.map)
  next
    case (Some a)
    then have "match_route ''PUT'' path = Some (Update_policy a)" by (simp add: match_route_put)
    then show ?thesis
      unfolding app_def by (simp only: option.map serve_update_declared)
  qed
next
  assume "app e ''POST'' path body = Some (calls, out)" "c \<in> set calls"
  from app_post_forwarded[OF this]
  show "json_keys (call_json c) = [''agentId'', ''endpointId'', ''permissions'']"
    by (auto simp: PolicyCreate_model_dump_def)
next
  assume "app e ''PUT'' path body = Some (calls, out)" "c \<in> set calls"
  from app_put_forwarded[OF this]
  show "json_keys (call_json c) = [''permissions'']"
    by (auto simp: PolicyUpdate_model_dump_def)
qed

lemma app_post_accepted_declared:
  assumes "validate_PolicyCreate (lax_bool e)
             (JObj (filter (\<lambda>kv. fst kv \<in> set [''agentId'', ''endpointId'', ''permissions'']) kvs))
           = Inr payload"
  shows "map_option fst (app e ''POST'' ''/policies'' (JObj kvs))
           = Some [\<lparr>call_method = ''POST'', call_url = PROXY_URL e @ ''/api/policies'',
                    call_json = PolicyCreate_model_dump payload\<rparr>]"
proof -
  from assms have "validate_PolicyCreate (lax_bool e) (JObj kvs) = Inr payload"
    by (simp only: validate_PolicyCreate_declared)
  then show ?thesis by (rule app_post_accepted)
qed

lemma app_put_accepted_declared:
  assumes "a \<noteq> []" and "CHR ''/'' \<notin> set a"
      and "validate_PolicyUpdate (lax_bool e)
             (JObj (filter (\<lambda>kv. fst kv \<in> set [''permissions'']) kvs))
           = Inr payload"
  shows "map_option fst (app e ''PUT'' (''/policies/'' @ a) (JObj kvs))
           = Some [\<lparr>call_method = ''PUT'', call_url = PROXY_URL e @ ''/api/policies/'' @ a,
                    call_json = PolicyUpdate_model_dump payload\<rparr>]"
proof -
  from assms(3) have "validate_PolicyUpdate (lax_bool e) (JObj kvs) = Inr payload"
    by (simp only: validate_PolicyUpdate_declared)
  with assms(1,2) show ?thesis by (rule app_put_accepted)
qed

text \<open>
  C10. Keys of the inbound body that the model does not declare have no effect: POST
  /policies treats a body as it treats the body restricted to \<open>agentId\<close>,
  \<open>endpointId\<close> and \<open>permissions\<close>, and PUT /policies/a as it treats the body
  restricted to \<open>permissions\<close>. A body whose declared part validates is accepted and
  forwarded as one call whose body is the serialised model; in particular a body with
  string identifiers and permissions that are absent or an object of booleans and
  nulls is forwarded whatever other keys it has. Every forwarded body has the declared
  keys only.
\<close>

theorem undeclared_keys_dropped:
  "app e ''POST'' path (JObj kvs)
     = app e ''POST'' path
         (JObj (filter (\<lambda>kv. fst kv \<in> set [''agentId'', ''endpointId'', ''permissions'']) kvs))
   \<and> app e ''PUT'' path (JObj kvs)
     = app e ''PUT'' path (JObj (filter (\<lambda>kv. fst kv \<in> set [''permissions'']) kvs))
   \<and> (app e ''POST'' path body = Some (calls, out) \<longrightarrow> c \<in> set calls
        \<longrightarrow> json_keys (call_json c) = [''agentId'', ''endpointId'', ''permissions''])
   \<and> (app e ''PUT'' path body = Some (calls, out) \<longrightarrow> c \<in> set calls
        \<longrightarrow> json_keys (call_json c) = [''permissions''])
   \<and> (validate_PolicyCreate (lax_bool e)
          (JObj (filter (\<lambda>kv. fst kv \<in> set [''agentId'', ''endpointId'', ''permissions'']) kvs))
        = Inr payload
        \<longrightarrow> map_option fst (app e ''POST'' ''/policies'' (JObj kvs))
              = Some [\<lparr>call_method = ''POST'', call_url = PROXY_URL e @ ''/api/policies'',
                       call_json = PolicyCreate_model_dump payload\<rparr>])
   \<and> (a \<noteq> [] \<longrightarrow> CHR ''/'' \<notin> set a
        \<longrightarrow> validate_PolicyUpdate (lax_bool e)
              (JObj (filter (\<lambda>kv. fst kv \<in> set [''permissions'']) ukvs))
            = Inr upd
        \<longrightarrow> map_option fst (app e ''PUT'' (''/policies/'' @ a) (JObj ukvs))
              = Some [\<lparr>call_method = ''PUT'', call_url = PROXY_URL e @ ''/api/policies/'' @ a,
                       call_json = PolicyUpdate_model_dump upd\<rparr>])
   \<and> (map_of kvs ''agentId'' = Some (JStr i) \<longrightarrow>
      map_of kvs ''endpointId'' = Some (JStr n) \<longrightarrow>
      (map_of kvs ''permissions'' = None \<or> (\<exists>pk. map_of kvs ''permissions'' = Some (JObj pk))) \<longrightarrow>
      (\<forall>k \<in> set [''read'', ''create'', ''update'', ''delete''].
         flag_of_body (JObj kvs) k
           \<in> set [None, Some JNull, Some (JBool True), Some (JBool False)]) \<longrightarrow>
      map_option fst (app e ''POST'' ''/policies'' (JObj kvs))
           = Some [\<lparr>call_method = ''POST'', call_url = PROXY_URL e @ ''/api/policies'',
                    call_json =
                      JObj [(''agentId'', JStr i), (''endpointId'', JStr n),
                            (''permissions'',
                             JObj [(''read'', dump_flag (flag_value (flag_of_body (JObj kvs) ''read''))),
                                   (''create'', dump_flag (flag_value (flag_of_body (JObj kvs) ''create''))),
                                   (''update'', dump_flag (flag_value (flag_of_body (JObj kvs) ''update''))),
                                   (''delete'', dump_flag (flag_value (flag_of_body (JObj kvs) ''delete'')))])]\<rparr>])
   \<and> (a \<noteq> [] \<longrightarrow> CHR ''/'' \<notin> set a \<longrightarrow>
      (map_of ukvs ''permissions'' = None \<or> (\<exists>pk. map_of ukvs ''permissions'' = Some (JObj pk))) \<longrightarrow>
      (\<forall>k \<in> set [''read'', ''create'', ''update'', ''delete''].
         flag_of_body (JObj ukvs) k
           \<in> set [None, Some JNull, Some (JBool True), Some (JBool False)]) \<longrightarrow>
      map_option fst (app e ''PUT'' (''/policies/'' @ a) (JObj ukvs))
           = Some [\<lparr>call_method = ''PUT'', call_url = PROXY_URL e @ ''/api/policies/'' @ a,
                    call_json =
                      JObj [(''permissions'',
                             JObj [(''read'', dump_flag (flag_value (flag_of_body (JObj ukvs) ''read''))),
                                   (''create'', dump_flag (flag_value (flag_of_body (JObj ukvs) ''create''))),
                                   (''update'', dump_flag (flag_value (flag_of_body (JObj ukvs) ''update''))),
                                   (''delete'', dump_flag (flag_value (flag_of_body (JObj ukvs) ''delete'')))])]\<rparr>])"
  using undeclared_keys_ignored[of e path kvs body calls out c]
        app_post_accepted_declared[of e kvs payload]
        app_put_accepted_declared[of a e ukvs upd]
        app_post_strict[of kvs i n e] app_put_strict[of a ukvs e]
  by blast

theorem undeclared_keys_dropped_witness:
  "map_of body_extra ''note'' = Some (JStr ''x'')
   \<and> map_option fst (app (upstream_answers resp_201_json) ''POST'' ''/policies'' (JObj body_extra))
     = Some [\<lparr>call_method = ''POST'', call_url = ''http://localhost:5001/api/policies'',
              call_json =
                JObj [(''agentId'', JStr ''a1''), (''endpointId'', JStr ''e1''),
                      (''permissions'',
                       JObj [(''read'', JNull), (''create'', JNull),
                             (''update'', JNull), (''delete'', JNull)])]\<rparr>]
   \<and> map_of body_update_extra ''note'' = Some (JStr ''x'')
   \<and> map_option fst
         (app (upstream_answers resp_200_json) ''PUT'' ''/policies/a1'' (JObj body_update_extra))
     = Some [\<lparr>call_method = ''PUT'', call_url = ''http://localhost:5001/api/policies/a1'',
              call_json =
                JObj [(''permissions'',
                       JObj [(''read'', JBool True), (''create'', JNull),
                             (''update'', JNull), (''delete'', JNull)])]\<rparr>]"
proof -
  have p: "map_option fst
             (app (upstream_answers resp_201_json) ''POST'' ''/policies'' (JObj body_extra))
     = Some [\<lparr>call_method = ''POST'', call_url = ''http://localhost:5001/api/policies'',
              call_json =
                JObj [(''agentId'', JStr ''a1''), (''endpointId'', JStr ''e1''),
                      (''permissions'',
                       JObj [(''read'', JNull), (''create'', JNull),
                             (''update'', JNull), (''delete'', JNull)])]\<rparr>]"
    using undeclared_keys_dropped
            [where e = "upstream_answers resp_201_json" and i = "''a1''" and n = "''e1''"
               and kvs = "[(''agentId'', JStr ''a1''), (''note'', JStr ''x''),
                           (''endpointId'', JStr ''e1'')]",
             THEN conjunct2, THEN conjunct2, THEN conjunct2, THEN conjunct2,
             THEN conjunct2, THEN conjunct2, THEN conjunct1]
    by (simp add: body_extra_def flag_of_body_def dump_flag_def PROXY_URL_def
          upstream_answers_def)
  have u: "map_option fst
         (app (upstream_answers resp_200_json) ''PUT'' ''/policies/a1'' (JObj body_update_extra))
     = Some [\<lparr>call_method = ''PUT'', call_url = ''http://localhost:5001/api/policies/a1'',
              call_json =
                JObj [(''permissions'',
                       JObj [(''read'', JBool True), (''create'', JNull),
                             (''update'', JNull), (''delete'', JNull)])]\<rparr>]"
    using undeclared_keys_dropped
            [where e = "upstream_answers resp_200_json" and a = "''a1''"
               and ukvs = "[(''note'', JStr ''x''),
                            (''permissions'', JObj [(''read'', JBool True)])]",
             THEN conjunct2, THEN conjunct2, THEN conjunct2, THEN conjunct2,
             THEN conjunct2, THEN conjunct2, THEN conjunct2]
    by (simp add: body_update_extra_def flag_of_body_def dump_flag_def PROXY_URL_def
          upstream_answers_def)
  from p u show ?thesis
    by (simp add: body_extra_def body_update_extra_def)
qed

end
